theory Spec2Isabelle
  imports Complex_Main
begin

section \<open>Arrays, errors and haiku parameters\<close>

text \<open>
  The module \<^verbatim>\<open>enn/networks/hypermodels.py\<close> computes with \<^verbatim>\<open>jnp\<close> arrays. An array is
  modelled by its shape and its elements in row-major order; the elements are real
  numbers, so rounding, overflow and underflow of the floating-point types are outside
  the model, and dtypes are not tracked. A scalar has the empty shape.
\<close>

datatype error = ValueError | IndexError | AssertionError | TypeError | ZeroDivisionError

record tensor =
  shape :: "nat list"
  data :: "real list"

definition wf_tensor :: "tensor \<Rightarrow> bool" where
  "wf_tensor t = (length (data t) = prod_list (shape t))"

definition zeros :: "nat list \<Rightarrow> tensor" where
  "zeros shp = \<lparr>shape = shp, data = replicate (prod_list shp) 0\<rparr>"

text \<open>
  An initializer maps a shape to an array. The random initializers of haiku draw from
  the key of the running \<^verbatim>\<open>init\<close>; that draw is the function carried by the frame
  \<open>Init\<close> below. \<open>Zeros\<close> is \<^verbatim>\<open>jnp.zeros\<close>, \<open>Initializer f\<close> is a callable supplied by
  the caller.
\<close>

datatype initializer =
  TruncatedNormal real
  | RandomNormal
  | Zeros
  | Initializer "nat list \<Rightarrow> tensor"

text \<open>
  A module runs either while haiku creates its parameters (\<open>Init draw\<close>) or while it
  reads them from the parameters handed to \<^verbatim>\<open>apply\<close> (\<open>Apply ps\<close>, the module's own
  dictionary from parameter name to array). \<^verbatim>\<open>hk.get_parameter(name, shape, init=...)\<close>
  raises \<^verbatim>\<open>ValueError\<close> when the parameter is missing in \<^verbatim>\<open>apply\<close> and when the array
  it obtained does not have the requested shape.
\<close>

datatype hk_frame =
  Init "initializer \<Rightarrow> nat list \<Rightarrow> tensor"
  | Apply "string \<Rightarrow> tensor option"

definition initialise :: "(initializer \<Rightarrow> nat list \<Rightarrow> tensor) \<Rightarrow> initializer \<Rightarrow> nat list \<Rightarrow> tensor" where
  "initialise draw i shp =
     (case i of Zeros \<Rightarrow> zeros shp | Initializer f \<Rightarrow> f shp | _ \<Rightarrow> draw i shp)"

definition check_shape :: "nat list \<Rightarrow> tensor \<Rightarrow> error + tensor" where
  "check_shape shp p = (if shape p = shp then Inr p else Inl ValueError)"

definition get_parameter :: "hk_frame \<Rightarrow> string \<Rightarrow> nat list \<Rightarrow> initializer \<Rightarrow> error + tensor" where
  "get_parameter fr name shp init =
     (case fr of
        Init draw \<Rightarrow> check_shape shp (initialise draw init shp)
      | Apply ps \<Rightarrow> (case ps name of None \<Rightarrow> Inl ValueError | Some p \<Rightarrow> check_shape shp p))"

section \<open>DiagonalLinear\<close>

text \<open>
  \<^verbatim>\<open>jnp.log(1 + jnp.exp(w))\<close>, which \<^verbatim>\<open>__call__\<close> applies to every element of the weight
  before it multiplies.
\<close>

definition softplus :: "real \<Rightarrow> real" where
  "softplus w = ln (1 + exp w)"

text \<open>
  \<^verbatim>\<open>inputs * v\<close> and \<^verbatim>\<open>out + v\<close> for a vector \<open>v\<close> of shape \<open>[n]\<close>, \<open>n\<close> the last
  dimension of the left operand: numpy broadcasting repeats \<open>v\<close> along the last axis,
  so element \<open>k\<close> of the left operand meets element \<open>k mod n\<close> of \<open>v\<close>, and the result
  has the shape of the left operand.
\<close>

definition bcast_last :: "(real \<Rightarrow> real \<Rightarrow> real) \<Rightarrow> tensor \<Rightarrow> tensor \<Rightarrow> tensor" where
  "bcast_last f x v =
     \<lparr>shape = shape x,
      data = map (\<lambda>k. f (data x ! k) (data v ! (k mod last (shape x)))) [0..<length (data x)]\<rparr>"

record DiagonalLinear =
  dl_input_size :: "nat option"
  dl_with_bias :: bool
  dl_w_init :: "initializer option"
  dl_b_init :: initializer

text \<open>\<^verbatim>\<open>DiagonalLinear.__init__\<close>: \<^verbatim>\<open>self.b_init = b_init or jnp.zeros\<close>.\<close>

definition DiagonalLinear_init :: "bool \<Rightarrow> initializer option \<Rightarrow> initializer option \<Rightarrow> DiagonalLinear" where
  "DiagonalLinear_init with_bias w_init b_init =
     \<lparr>dl_input_size = None,
      dl_with_bias = with_bias,
      dl_w_init = w_init,
      dl_b_init = (case b_init of None \<Rightarrow> Zeros | Some i \<Rightarrow> i)\<rparr>"

text \<open>
  The weight initializer chosen by \<^verbatim>\<open>__call__\<close>: the one given, or a truncated normal
  of standard deviation \<^verbatim>\<open>1 / sqrt(input_size)\<close>.
\<close>

definition dl_weight_init :: "DiagonalLinear \<Rightarrow> nat \<Rightarrow> initializer" where
  "dl_weight_init dl n =
     (case dl_w_init dl of None \<Rightarrow> TruncatedNormal (1 / sqrt (real n)) | Some i \<Rightarrow> i)"

text \<open>
  \<^verbatim>\<open>DiagonalLinear.__call__\<close>. The call stores \<^verbatim>\<open>self.input_size\<close>, so a normal return
  gives the output together with the updated module.
\<close>

definition DiagonalLinear_call :: "DiagonalLinear \<Rightarrow> hk_frame \<Rightarrow> tensor \<Rightarrow> error + (tensor \<times> DiagonalLinear)" where
  "DiagonalLinear_call dl fr inputs =
     (if shape inputs = [] then Inl ValueError
      else
        let n = last (shape inputs);
            dl' = dl\<lparr>dl_input_size := Some n\<rparr>
        in case get_parameter fr ''w'' [n] (dl_weight_init dl n) of
             Inl e \<Rightarrow> Inl e
           | Inr w \<Rightarrow>
               let out = bcast_last (\<lambda>a c. a * softplus c) inputs w
               in if dl_with_bias dl
                  then (case get_parameter fr ''b'' [n] (dl_b_init dl) of
                          Inl e \<Rightarrow> Inl e
                        | Inr b \<Rightarrow> Inr (bcast_last (\<lambda>a c. a + c) out b, dl'))
                  else Inr (out, dl'))"

text \<open>
  The parameters \<^verbatim>\<open>__call__\<close> asks for are available with the shape \<open>[n]\<close>.
\<close>

definition dl_params_ok :: "DiagonalLinear \<Rightarrow> hk_frame \<Rightarrow> nat \<Rightarrow> bool" where
  "dl_params_ok dl fr n =
     (\<not> isl (get_parameter fr ''w'' [n] (dl_weight_init dl n)) \<and>
      (if dl_with_bias dl then \<not> isl (get_parameter fr ''b'' [n] (dl_b_init dl)) else True))"

section \<open>Parameter trees\<close>

text \<open>
  The parameters of a haiku network are a dictionary from module name to a dictionary
  from parameter name to array. jax reads a dictionary as a tree whose leaves stand in
  the order of the sorted keys; a tree is modelled by the list of its entries in that
  order. \<open>tree_map\<close>, \<open>tree_leaves\<close>, \<open>tree_structure\<close>, \<open>tree_unflatten\<close> and
  \<open>tree_multimap\<close> are the functions of \<^verbatim>\<open>jax\<close> with these names.
\<close>

type_synonym 'a params = "(string \<times> (string \<times> 'a) list) list"

definition tree_map :: "('a \<Rightarrow> 'b) \<Rightarrow> 'a params \<Rightarrow> 'b params" where
  "tree_map f t = map (\<lambda>(m, ps). (m, map (\<lambda>(n, v). (n, f v)) ps)) t"

definition tree_leaves :: "'a params \<Rightarrow> 'a list" where
  "tree_leaves t = concat (map (\<lambda>(m, ps). map snd ps) t)"

definition tree_structure :: "'a params \<Rightarrow> unit params" where
  "tree_structure t = tree_map (\<lambda>_. ()) t"

fun fill_leaves :: "unit params \<Rightarrow> 'a list \<Rightarrow> 'a params" where
  "fill_leaves [] ls = []"
| "fill_leaves ((m, ps) # t) ls =
     (m, zip (map fst ps) (take (length ps) ls)) # fill_leaves t (drop (length ps) ls)"

definition tree_unflatten :: "unit params \<Rightarrow> 'a list \<Rightarrow> error + 'a params" where
  "tree_unflatten st ls =
     (if length ls = length (tree_leaves st) then Inr (fill_leaves st ls) else Inl ValueError)"

text \<open>A function that may raise, applied to the elements in order: the first error ends it.\<close>

fun traverse :: "('a \<Rightarrow> error + 'b) \<Rightarrow> 'a list \<Rightarrow> error + 'b list" where
  "traverse f [] = Inr []"
| "traverse f (x # xs) =
     (case f x of
        Inl e \<Rightarrow> Inl e
      | Inr y \<Rightarrow> (case traverse f xs of Inl e \<Rightarrow> Inl e | Inr ys \<Rightarrow> Inr (y # ys)))"

definition tree_multimap :: "('a \<Rightarrow> 'b \<Rightarrow> error + 'c) \<Rightarrow> 'a params \<Rightarrow> 'b params \<Rightarrow> error + 'c params" where
  "tree_multimap f t u =
     (if tree_structure u = tree_structure t
      then (case traverse (\<lambda>(a, b). f a b) (zip (tree_leaves t) (tree_leaves u)) of
              Inl e \<Rightarrow> Inl e
            | Inr ls \<Rightarrow> Inr (fill_leaves (tree_structure t) ls))
      else Inl ValueError)"

text \<open>
  \<^verbatim>\<open>hk.data_structures.map(fn, structure)\<close>: \<^verbatim>\<open>fn(module_name, name, value)\<close> on every
  entry, the result under the same names.
\<close>

definition hk_map :: "(string \<Rightarrow> string \<Rightarrow> 'a \<Rightarrow> error + 'b) \<Rightarrow> 'a params \<Rightarrow> error + 'b params" where
  "hk_map fn t =
     traverse
       (\<lambda>(m, ps).
          case traverse (\<lambda>(n, v). case fn m n v of Inl e \<Rightarrow> Inl e | Inr v' \<Rightarrow> Inr (n, v')) ps of
            Inl e \<Rightarrow> Inl e
          | Inr ps' \<Rightarrow> Inr (m, ps'))
       t"

section \<open>Array functions of jax.numpy\<close>

text \<open>\<^verbatim>\<open>jnp.ravel\<close>: the same elements in one dimension.\<close>

definition ravel :: "tensor \<Rightarrow> tensor" where
  "ravel x = \<lparr>shape = [prod_list (shape x)], data = data x\<rparr>"

text \<open>
  \<^verbatim>\<open>jnp.reshape\<close>: the same elements under a new shape of the same size, an error
  otherwise.
\<close>

definition reshape :: "tensor \<Rightarrow> nat list \<Rightarrow> error + tensor" where
  "reshape a shp =
     (if prod_list (shape a) = prod_list shp then Inr (a\<lparr>shape := shp\<rparr>) else Inl TypeError)"

text \<open>\<^verbatim>\<open>np.cumsum\<close>, with the sum so far as second argument.\<close>

fun cumsum :: "nat list \<Rightarrow> nat \<Rightarrow> nat list" where
  "cumsum [] acc = []"
| "cumsum (x # xs) acc = (acc + x) # cumsum xs (acc + x)"

text \<open>
  \<^verbatim>\<open>jnp.split(ary, indices)\<close> on a vector: the slices \<^verbatim>\<open>ary[0:i1], ary[i1:i2], ..., ary[ik:]\<close>.
  The second argument is the start of the next slice.
\<close>

fun jnp_split :: "real list \<Rightarrow> nat \<Rightarrow> nat list \<Rightarrow> real list list" where
  "jnp_split xs off [] = [drop off xs]"
| "jnp_split xs off (i # idx) = take (i - off) (drop off xs) # jnp_split xs i idx"

definition vector :: "real list \<Rightarrow> tensor" where
  "vector xs = \<lparr>shape = [length xs], data = xs\<rparr>"

section \<open>hk.Linear\<close>

text \<open>
  \<^verbatim>\<open>jnp.dot(inputs, w)\<close> for \<open>w\<close> of shape \<open>[n_in, n_out]\<close> and \<open>n_in\<close> the last dimension
  of \<open>inputs\<close>: every row of \<open>inputs\<close> along its last axis is multiplied with the matrix.
\<close>

definition linear_dot :: "tensor \<Rightarrow> tensor \<Rightarrow> nat \<Rightarrow> nat \<Rightarrow> tensor" where
  "linear_dot x w n_in n_out =
     \<lparr>shape = butlast (shape x) @ [n_out],
      data = concat (map (\<lambda>r. map (\<lambda>j. sum_list (map (\<lambda>i. data x ! (r * n_in + i) * data w ! (i * n_out + j)) [0..<n_in]))
                                  [0..<n_out])
                         [0..<prod_list (butlast (shape x))])\<rparr>"

text \<open>
  \<^verbatim>\<open>hk.Linear(output_size)(inputs)\<close> of the haiku library, with its default bias and
  initializers, as \<^verbatim>\<open>hyper_fn\<close> builds it: scalars are refused, the weight has shape
  \<open>[input_size, output_size]\<close>, the bias \<open>[output_size]\<close>, and the output is
  \<^verbatim>\<open>jnp.dot(inputs, w) + b\<close>.
\<close>

definition hk_Linear :: "nat \<Rightarrow> hk_frame \<Rightarrow> tensor \<Rightarrow> error + tensor" where
  "hk_Linear output_size fr inputs =
     (if shape inputs = [] then Inl ValueError
      else
        let input_size = last (shape inputs)
        in case get_parameter fr ''w'' [input_size, output_size]
                  (TruncatedNormal (1 / sqrt (real input_size))) of
             Inl e \<Rightarrow> Inl e
           | Inr w \<Rightarrow>
               (case get_parameter fr ''b'' [output_size] Zeros of
                  Inl e \<Rightarrow> Inl e
                | Inr b \<Rightarrow>
                    Inr (bcast_last (\<lambda>a c. a + c) (linear_dot inputs w input_size output_size) b)))"

section \<open>hypermodel_module\<close>

text \<open>
  A \<^verbatim>\<open>jax.random\<close> key: \<^verbatim>\<open>jax.random.PRNGKey(seed)\<close>, or the \<open>n\<close>-th key that
  \<^verbatim>\<open>hk.PRNGSequence(seed)\<close> hands out.
\<close>

datatype prng_key = PRNGKey int | SequenceKey int nat

text \<open>
  \<^verbatim>\<open>hk.Transformed\<close> (without apply rng): the pair of functions \<^verbatim>\<open>init(rng, x)\<close> and
  \<^verbatim>\<open>apply(params, x)\<close> of a base network.
\<close>

record transformed =
  tb_init :: "prng_key \<Rightarrow> tensor \<Rightarrow> error + tensor params"
  tb_apply :: "tensor params \<Rightarrow> tensor \<Rightarrow> error + tensor"

text \<open>
  Modelled from the spec: the module \<^verbatim>\<open>base\<close> is not among the sources. \<^verbatim>\<open>base.Output\<close> is
  an array or a \<^verbatim>\<open>base.OutputWithPrior\<close>; of the latter the model has the fields that
  \<^verbatim>\<open>hyper_fn\<close> sets, \<^verbatim>\<open>train\<close> and \<^verbatim>\<open>extra\<close>.
\<close>

datatype net_output =
  Array tensor
  | OutputWithPrior tensor "(string \<times> tensor params) list"

text \<open>
  What \<^verbatim>\<open>hypermodel_module\<close> computes once and its \<^verbatim>\<open>hyper_fn\<close> closes over: the
  arguments, \<^verbatim>\<open>base_shapes\<close> and \<^verbatim>\<open>base_shapes_flat\<close>. The torso is a callable of the
  caller; \<open>'tp\<close> is the type of the parameters it reads.
\<close>

record 'tp hypermodule =
  hm_transformed_base :: transformed
  hm_hyper_torso :: "'tp \<Rightarrow> tensor \<Rightarrow> error + tensor"
  hm_diagonal_linear_hyper :: bool
  hm_return_generated_params :: bool
  hm_scale :: bool
  hm_base_shapes :: "nat list params"
  hm_base_shapes_flat :: "nat params"

text \<open>
  The parameters of the hypermodel: those of the torso, those of the \<^verbatim>\<open>DiagonalLinear\<close>
  layer, and those of the \<^verbatim>\<open>hk.Linear\<close> layers in the order in which \<^verbatim>\<open>hyper_fn\<close>
  creates them, which is the order of the leaves of \<^verbatim>\<open>base_shapes_flat\<close>.
\<close>

record 'tp hyper_params =
  hp_torso :: 'tp
  hp_diagonal :: hk_frame
  hp_linear :: "hk_frame list"

text \<open>Lines 108 to 111 of the module.\<close>

definition hypermodel_module ::
  "transformed \<Rightarrow> tensor \<Rightarrow> ('tp \<Rightarrow> tensor \<Rightarrow> error + tensor) \<Rightarrow> bool \<Rightarrow> bool \<Rightarrow> bool \<Rightarrow> error + 'tp hypermodule" where
  "hypermodel_module transformed_base dummy_input hyper_torso diagonal_linear_hyper
       return_generated_params scale =
     (case tb_init transformed_base (PRNGKey 0) dummy_input of
        Inl e \<Rightarrow> Inl e
      | Inr base_params \<Rightarrow>
          let base_params_flat = tree_map ravel base_params;
              base_shapes = tree_map shape base_params;
              base_shapes_flat = tree_map (\<lambda>x. hd (shape x)) base_params_flat
          in Inr \<lparr>hm_transformed_base = transformed_base,
                  hm_hyper_torso = hyper_torso,
                  hm_diagonal_linear_hyper = diagonal_linear_hyper,
                  hm_return_generated_params = return_generated_params,
                  hm_scale = scale,
                  hm_base_shapes = base_shapes,
                  hm_base_shapes_flat = base_shapes_flat\<rparr>)"

text \<open>
  \<^verbatim>\<open>scale_fn\<close>. \<^verbatim>\<open>value.shape[0]\<close> raises \<^verbatim>\<open>IndexError\<close> on an array without dimensions.
\<close>

definition scale_fn :: "string \<Rightarrow> string \<Rightarrow> tensor \<Rightarrow> error + tensor" where
  "scale_fn module_name name v =
     (if name = ''w''
      then (case shape v of
              [] \<Rightarrow> Inl IndexError
            | n # _ \<Rightarrow> Inr (v\<lparr>data := map (\<lambda>a. a / sqrt (real n)) (data v)\<rparr>))
      else Inr v)"

text \<open>
  \<^verbatim>\<open>hyper_fn\<close>, lines 131 to 148: \<^verbatim>\<open>flat_output\<close>, one flat array for every leaf of the base
  parameters. A \<^verbatim>\<open>hk.Linear\<close> whose parameters are missing raises \<^verbatim>\<open>ValueError\<close>.
\<close>

definition flat_output :: "'tp hypermodule \<Rightarrow> 'tp hyper_params \<Rightarrow> tensor \<Rightarrow> error + tensor params" where
  "flat_output hm hp index =
     (if hm_diagonal_linear_hyper hm
      then
        (if shape index \<noteq> [sum_list (tree_leaves (hm_base_shapes_flat hm))] then Inl AssertionError
         else
           (case DiagonalLinear_call (DiagonalLinear_init True None None) (hp_diagonal hp) index of
              Inl e \<Rightarrow> Inl e
            | Inr (hyper_index, _) \<Rightarrow>
                tree_unflatten (tree_structure (hm_base_shapes hm))
                  (map vector
                     (jnp_split (data hyper_index) 0
                        (butlast (cumsum (tree_leaves (hm_base_shapes_flat hm)) 0))))))
      else
        (case hm_hyper_torso hm (hp_torso hp) index of
           Inl e \<Rightarrow> Inl e
         | Inr hyper_index \<Rightarrow>
             if length (hp_linear hp) < length (tree_leaves (hm_base_shapes_flat hm))
             then Inl ValueError
             else
               (case traverse (\<lambda>(n, fr). hk_Linear n fr hyper_index)
                       (zip (tree_leaves (hm_base_shapes_flat hm)) (hp_linear hp)) of
                  Inl e \<Rightarrow> Inl e
                | Inr ls \<Rightarrow> Inr (fill_leaves (tree_structure (hm_base_shapes_flat hm)) ls))))"

text \<open>Line 151: \<^verbatim>\<open>generated_params\<close>.\<close>

definition generated_params :: "'tp hypermodule \<Rightarrow> 'tp hyper_params \<Rightarrow> tensor \<Rightarrow> error + tensor params" where
  "generated_params hm hp index =
     (case flat_output hm hp index of
        Inl e \<Rightarrow> Inl e
      | Inr fo \<Rightarrow> tree_multimap reshape fo (hm_base_shapes hm))"

text \<open>Lines 153 to 159: \<^verbatim>\<open>generated_params_scaled\<close>.\<close>

definition generated_params_scaled :: "'tp hypermodule \<Rightarrow> tensor params \<Rightarrow> error + tensor params" where
  "generated_params_scaled hm gp = (if hm_scale hm then hk_map scale_fn gp else Inr gp)"

text \<open>\<^verbatim>\<open>hyper_fn\<close>, the module that \<^verbatim>\<open>hypermodel_module\<close> returns.\<close>

definition hyper_fn :: "'tp hypermodule \<Rightarrow> 'tp hyper_params \<Rightarrow> tensor \<Rightarrow> tensor \<Rightarrow> error + net_output" where
  "hyper_fn hm hp inputs index =
     (case generated_params hm hp index of
        Inl e \<Rightarrow> Inl e
      | Inr gp \<Rightarrow>
          (case generated_params_scaled hm gp of
             Inl e \<Rightarrow> Inl e
           | Inr gps \<Rightarrow>
               (case tb_apply (hm_transformed_base hm) gps inputs of
                  Inl e \<Rightarrow> Inl e
                | Inr out \<Rightarrow>
                    if hm_return_generated_params hm
                    then (case tb_apply (hm_transformed_base hm) gps inputs of
                            Inl e \<Rightarrow> Inl e
                          | Inr train \<Rightarrow>
                              Inr (OutputWithPrior train
                                     [(''hyper_net_out'', gp), (''base_net_params'', gps)]))
                    else Inr (Array out))))"

text \<open>
  What \<^verbatim>\<open>scale_fn\<close> is documented to return for the parameter \<open>name\<close> with array \<open>v\<close>:
  the weight divided by the square root of its first dimension, any other parameter as
  it is.
\<close>

definition scaled_leaf :: "string \<Rightarrow> tensor \<Rightarrow> tensor" where
  "scaled_leaf name v =
     (if name = ''w'' then v\<lparr>data := map (\<lambda>a. a / sqrt (real (hd (shape v)))) (data v)\<rparr> else v)"

section \<open>Epistemic networks\<close>

text \<open>
  Modelled from the spec: \<^verbatim>\<open>base.EpistemicNetwork\<close> is not among the sources. The spec has
  the Epistemic Network pair an apply function, an init function and an indexer:
  \<^verbatim>\<open>apply(params, x, z)\<close>, \<^verbatim>\<open>init(key, x, z)\<close> and \<^verbatim>\<open>indexer(key)\<close>.
\<close>

record 'p epistemic_network =
  enn_apply :: "'p \<Rightarrow> tensor \<Rightarrow> tensor \<Rightarrow> error + net_output"
  enn_init :: "prng_key \<Rightarrow> tensor \<Rightarrow> tensor \<Rightarrow> error + 'p"
  enn_indexer :: "prng_key \<Rightarrow> tensor"

text \<open>
  The parts of the haiku library that the constructors below use and the model takes as
  given: the transformed network of \<^verbatim>\<open>hk.nets.MLP(output_sizes, w_init, b_init)\<close>, and the
  \<^verbatim>\<open>init\<close> functions that \<^verbatim>\<open>hk.transform\<close> derives from a module by running it while
  parameters are created (for the module of \<^verbatim>\<open>hypermodel_module\<close>, and for the function
  \<^verbatim>\<open>prior_net\<close> of \<^verbatim>\<open>MLPHypermodelPriorIndependentLayers\<close>).
\<close>

record haiku =
  hk_nets_MLP :: "nat list \<Rightarrow> initializer option \<Rightarrow> initializer option \<Rightarrow> transformed"
  hk_init_hyper :: "tensor params hypermodule \<Rightarrow> prng_key \<Rightarrow> tensor \<Rightarrow> tensor \<Rightarrow> error + tensor params hyper_params"
  hk_init_prior :: "(hk_frame list \<Rightarrow> tensor \<Rightarrow> tensor \<Rightarrow> error + tensor) \<Rightarrow> prng_key \<Rightarrow> tensor \<Rightarrow> tensor \<Rightarrow> error + hk_frame list"

text \<open>
  Modelled from the spec: \<^verbatim>\<open>utils.epistemic_network_from_module\<close> is not among the
  sources. The spec has the Epistemic Network pair an apply function, an init function
  and an indexer: the apply function runs the module on the parameters it is given, the
  init function is the one haiku derives from the module, and the indexer is the
  argument.
\<close>

definition epistemic_network_from_module ::
  "('p \<Rightarrow> tensor \<Rightarrow> tensor \<Rightarrow> error + net_output) \<Rightarrow> (prng_key \<Rightarrow> tensor \<Rightarrow> tensor \<Rightarrow> error + 'p) \<Rightarrow>
   (prng_key \<Rightarrow> tensor) \<Rightarrow> 'p epistemic_network" where
  "epistemic_network_from_module enn_module module_init indexer =
     \<lparr>enn_apply = enn_module, enn_init = module_init, enn_indexer = indexer\<rparr>"

text \<open>\<^verbatim>\<open>MLPHypermodel.__init__\<close>, lines 52 to 56: the torso.\<close>

definition MLPHypermodel_hyper_torso ::
  "haiku \<Rightarrow> nat list option \<Rightarrow> initializer option \<Rightarrow> initializer option \<Rightarrow> tensor params \<Rightarrow> tensor \<Rightarrow> error + tensor" where
  "MLPHypermodel_hyper_torso hk hidden_sizes w_init b_init =
     (case hidden_sizes of
        None \<Rightarrow> (\<lambda>p x. Inr x)
      | Some hs \<Rightarrow> (\<lambda>p index. tb_apply (hk_nets_MLP hk hs w_init b_init) p index))"

text \<open>\<^verbatim>\<open>MLPHypermodel.__init__\<close>.\<close>

definition MLPHypermodel ::
  "haiku \<Rightarrow> transformed \<Rightarrow> tensor \<Rightarrow> (prng_key \<Rightarrow> tensor) \<Rightarrow> nat list option \<Rightarrow> bool \<Rightarrow> bool \<Rightarrow>
   initializer option \<Rightarrow> initializer option \<Rightarrow> error + tensor params hyper_params epistemic_network" where
  "MLPHypermodel hk transformed_base dummy_input indexer hidden_sizes return_generated_params scale
       w_init b_init =
     (case hypermodel_module transformed_base dummy_input
             (MLPHypermodel_hyper_torso hk hidden_sizes w_init b_init) False
             return_generated_params scale of
        Inl e \<Rightarrow> Inl e
      | Inr hm \<Rightarrow>
          Inr (epistemic_network_from_module (\<lambda>p inputs index. hyper_fn hm p inputs index)
                 (hk_init_hyper hk hm) indexer))"

section \<open>Priors\<close>

text \<open>The array of a network output: the output itself, or its \<^verbatim>\<open>train\<close> field.\<close>

fun output_array :: "net_output \<Rightarrow> tensor" where
  "output_array (Array y) = y"
| "output_array (OutputWithPrior train extra) = train"

definition tensor_scale :: "real \<Rightarrow> tensor \<Rightarrow> tensor" where
  "tensor_scale c t = t\<lparr>data := map (\<lambda>a. c * a) (data t)\<rparr>"

text \<open>The sum of two arrays of one shape, element by element.\<close>

definition tensor_add :: "tensor \<Rightarrow> tensor \<Rightarrow> error + tensor" where
  "tensor_add a b =
     (if shape a = shape b then Inr (a\<lparr>data := map2 (\<lambda>u v. u + v) (data a) (data b)\<rparr>)
      else Inl TypeError)"

text \<open>
  Modelled from the spec: \<^verbatim>\<open>priors.convert_enn_to_prior_fn\<close> is not among the sources. The
  spec has the prior network independently parameterized, its parameters fixed once at
  construction and frozen after initialization: the parameters are initialised once, from
  the key, the dummy input and an index drawn with the key, and the prior function applies
  the network with these parameters.
\<close>

definition convert_enn_to_prior_fn ::
  "'p epistemic_network \<Rightarrow> tensor \<Rightarrow> prng_key \<Rightarrow> error + (tensor \<Rightarrow> tensor \<Rightarrow> error + tensor)" where
  "convert_enn_to_prior_fn enn dummy_input key =
     (case enn_init enn key dummy_input (enn_indexer enn key) of
        Inl e \<Rightarrow> Inl e
      | Inr prior_params \<Rightarrow>
          Inr (\<lambda>x z. case enn_apply enn prior_params x z of
                       Inl e \<Rightarrow> Inl e
                     | Inr out \<Rightarrow> Inr (output_array out)))"

text \<open>The output of a network with the prior term added to its array.\<close>

fun add_prior :: "net_output \<Rightarrow> tensor \<Rightarrow> error + net_output" where
  "add_prior (Array y) p =
     (case tensor_add y p of Inl e \<Rightarrow> Inl e | Inr s \<Rightarrow> Inr (Array s))"
| "add_prior (OutputWithPrior train extra) p =
     (case tensor_add train p of Inl e \<Rightarrow> Inl e | Inr s \<Rightarrow> Inr (OutputWithPrior s extra))"

text \<open>
  Modelled from the spec: \<^verbatim>\<open>priors.EnnWithAdditivePrior\<close> is not among the sources. The
  spec has the Prior Composer additively combine the output of the prior network with the
  output of the primary network; the callers pass \<^verbatim>\<open>prior_scale\<close>, the weight of the prior
  term. The init function and the indexer are those of the primary network.
\<close>

definition EnnWithAdditivePrior ::
  "'p epistemic_network \<Rightarrow> (tensor \<Rightarrow> tensor \<Rightarrow> error + tensor) \<Rightarrow> real \<Rightarrow> 'p epistemic_network" where
  "EnnWithAdditivePrior enn prior_fn prior_scale =
     \<lparr>enn_apply =
        (\<lambda>params x z.
           case enn_apply enn params x z of
             Inl e \<Rightarrow> Inl e
           | Inr net_out \<Rightarrow>
               (case prior_fn x z of
                  Inl e \<Rightarrow> Inl e
                | Inr prior \<Rightarrow> add_prior net_out (tensor_scale prior_scale prior))),
      enn_init = enn_init enn,
      enn_indexer = enn_indexer enn\<rparr>"

text \<open>\<^verbatim>\<open>MLPHypermodelWithHypermodelPrior.__init__\<close>.\<close>

definition MLPHypermodelWithHypermodelPrior ::
  "haiku \<Rightarrow> nat list \<Rightarrow> real \<Rightarrow> tensor \<Rightarrow> (prng_key \<Rightarrow> tensor) \<Rightarrow> nat list \<Rightarrow> nat list option \<Rightarrow>
   nat list option \<Rightarrow> initializer option \<Rightarrow> initializer option \<Rightarrow> bool \<Rightarrow> int \<Rightarrow> bool \<Rightarrow>
   error + tensor params hyper_params epistemic_network" where
  "MLPHypermodelWithHypermodelPrior hk base_output_sizes prior_scale dummy_input indexer
       prior_base_output_sizes hyper_hidden_sizes prior_hyper_hidden_sizes w_init b_init
       return_generated_params seed scale =
     (let transformed_base = hk_nets_MLP hk base_output_sizes w_init b_init;
          transformed_prior_base = hk_nets_MLP hk prior_base_output_sizes w_init b_init
      in case MLPHypermodel hk transformed_prior_base dummy_input indexer prior_hyper_hidden_sizes
                return_generated_params scale w_init b_init of
           Inl e \<Rightarrow> Inl e
         | Inr prior_enn \<Rightarrow>
             (case convert_enn_to_prior_fn prior_enn dummy_input (PRNGKey seed) of
                Inl e \<Rightarrow> Inl e
              | Inr prior_fn \<Rightarrow>
                  (case MLPHypermodel hk transformed_base dummy_input indexer hyper_hidden_sizes
                          return_generated_params scale w_init b_init of
                     Inl e \<Rightarrow> Inl e
                   | Inr enn_wo_prior \<Rightarrow>
                       Inr (EnnWithAdditivePrior enn_wo_prior prior_fn prior_scale))))"

section \<open>HyperLinear and PriorMLPIndependentLayers\<close>

record HyperLinear =
  hl_output_size :: nat
  hl_index_dim_per_layer :: nat
  hl_weight_scaling :: real
  hl_bias_scaling :: real
  hl_fixed_bias_val :: real

text \<open>
  The arithmetic of \<^verbatim>\<open>HyperLinear.__call__\<close>, lines 270 to 277, on the elements of \<open>w\<close>
  (shape \<open>[output_size, hidden_size, index_dim_per_layer]\<close>) and \<open>b\<close> (shape
  \<open>[output_size, index_dim_per_layer]\<close>): each row along the last axis is divided by its
  norm and rescaled, then contracted with the index \<open>z\<close>. A row of norm zero gives
  \<^verbatim>\<open>nan\<close> in floating point; here it gives the value of HOL's division by zero.
\<close>

definition hl_weights :: "HyperLinear \<Rightarrow> tensor \<Rightarrow> nat \<Rightarrow> real list \<Rightarrow> nat \<Rightarrow> nat \<Rightarrow> real" where
  "hl_weights hl w hidden_size z o' h =
     (let d = hl_index_dim_per_layer hl;
          row = map (\<lambda>i. data w ! ((o' * hidden_size + h) * d + i)) [0..<d];
          norm = sqrt (sum_list (map (\<lambda>a. a * a) row));
          scaled = map (\<lambda>a. a / norm * sqrt (hl_weight_scaling hl / real hidden_size)) row
      in sum_list (map2 (\<lambda>a c. a * c) scaled z))"

definition hl_bias :: "HyperLinear \<Rightarrow> tensor \<Rightarrow> real list \<Rightarrow> nat \<Rightarrow> real" where
  "hl_bias hl b z o' =
     (let d = hl_index_dim_per_layer hl;
          row = map (\<lambda>i. data b ! (o' * d + i)) [0..<d];
          norm = sqrt (sum_list (map (\<lambda>a. a * a) row));
          scaled = map (\<lambda>a. a / norm * sqrt (hl_bias_scaling hl) + hl_fixed_bias_val hl) row
      in sum_list (map2 (\<lambda>a c. a * c) scaled z))"

text \<open>
  \<^verbatim>\<open>HyperLinear.__call__\<close>. The input must have two dimensions (line 262 unpacks its
  shape); with no hidden unit the Python division \<^verbatim>\<open>self._weight_scaling / hidden_size\<close> of
  line 273 raises \<^verbatim>\<open>ZeroDivisionError\<close>. The model covers an index of shape
  \<open>[index_dim_per_layer]\<close>, as the contractions \<^verbatim>\<open>'ohi,i->oh'\<close> and \<^verbatim>\<open>'oi,i->o'\<close> expect
  it, and refuses any other.
\<close>

definition HyperLinear_call :: "HyperLinear \<Rightarrow> hk_frame \<Rightarrow> tensor \<Rightarrow> tensor \<Rightarrow> error + tensor" where
  "HyperLinear_call hl fr x z =
     (case shape x of
        [unused_x_batch_size, hidden_size] \<Rightarrow>
          (case get_parameter fr ''w''
                  [hl_output_size hl, hidden_size, hl_index_dim_per_layer hl] RandomNormal of
             Inl e \<Rightarrow> Inl e
           | Inr w \<Rightarrow>
               (case get_parameter fr ''b'' [hl_output_size hl, hl_index_dim_per_layer hl] RandomNormal of
                  Inl e \<Rightarrow> Inl e
                | Inr b \<Rightarrow>
                    if hidden_size = 0 then Inl ZeroDivisionError
                    else if shape z \<noteq> [hl_index_dim_per_layer hl] then Inl ValueError
                    else
                      Inr \<lparr>shape = [unused_x_batch_size, hl_output_size hl],
                           data = concat (map (\<lambda>bt. map (\<lambda>o'.
                                     sum_list (map (\<lambda>h. hl_weights hl w hidden_size (data z) o' h
                                                          * data x ! (bt * hidden_size + h))
                                                 [0..<hidden_size])
                                     + hl_bias hl b (data z) o')
                                   [0..<hl_output_size hl])
                                 [0..<unused_x_batch_size])\<rparr>))
      | _ \<Rightarrow> Inl ValueError)"

text \<open>\<^verbatim>\<open>jax.nn.relu\<close>.\<close>

definition relu :: "tensor \<Rightarrow> tensor" where
  "relu t = t\<lparr>data := map (\<lambda>a. max a 0) (data t)\<rparr>"

text \<open>\<^verbatim>\<open>jnp.arange(n)\<close> for a Python integer \<open>n\<close>.\<close>

definition arange :: "int \<Rightarrow> nat list" where
  "arange n = [0..<nat n]"

text \<open>
  \<^verbatim>\<open>jnp.array_split(ary, sections)\<close> along the first axis: with \<open>q, r = divmod(size,
  sections)\<close> the first \<open>r\<close> parts have \<open>q + 1\<close> entries and the others \<open>q\<close>. The division
  by no section is recorded as \<open>ZeroDivisionError\<close>.
\<close>

definition array_split_sizes :: "nat \<Rightarrow> nat \<Rightarrow> error + nat list" where
  "array_split_sizes n_total sections =
     (if sections = 0 then Inl ZeroDivisionError
      else Inr (replicate (n_total mod sections) (n_total div sections + 1)
                @ replicate (sections - n_total mod sections) (n_total div sections)))"

fun chunks :: "'a list \<Rightarrow> nat list \<Rightarrow> 'a list list" where
  "chunks xs [] = []"
| "chunks xs (k # ks) = take k xs # chunks (drop k xs) ks"

definition array_split :: "'a list \<Rightarrow> nat \<Rightarrow> error + 'a list list" where
  "array_split xs sections =
     (case array_split_sizes (length xs) sections of
        Inl e \<Rightarrow> Inl e
      | Inr sizes \<Rightarrow> Inr (chunks xs sizes))"

text \<open>
  The same on an array: an array without dimensions has no first axis; otherwise the
  parts are slices along the first axis and keep the other dimensions.
\<close>

definition array_split_tensor :: "tensor \<Rightarrow> nat \<Rightarrow> error + tensor list" where
  "array_split_tensor z sections =
     (case shape z of
        [] \<Rightarrow> Inl IndexError
      | d # rest \<Rightarrow>
          (case array_split_sizes d sections of
             Inl e \<Rightarrow> Inl e
           | Inr sizes \<Rightarrow>
               Inr (map2 (\<lambda>s c. \<lparr>shape = s # rest, data = c\<rparr>) sizes
                      (chunks (data z) (map (\<lambda>s. s * prod_list rest) sizes)))))"

record PriorMLPIndependentLayers =
  pm_output_sizes :: "nat list"
  pm_num_layers :: nat
  pm_index_dim :: int
  pm_weight_scaling :: real
  pm_bias_scaling :: real
  pm_fixed_bias_val :: real
  pm_layers_indices :: "nat list list"
  pm_layers :: "HyperLinear list"

text \<open>Lines 300 to 307: \<^verbatim>\<open>self._layers_indices\<close>.\<close>

definition layers_indices :: "int \<Rightarrow> nat \<Rightarrow> error + nat list list" where
  "layers_indices index_dim num_layers =
     (if index_dim < int num_layers then Inr (replicate num_layers (arange index_dim))
      else array_split (arange index_dim) num_layers)"

text \<open>\<^verbatim>\<open>PriorMLPIndependentLayers.__init__\<close>.\<close>

definition PriorMLPIndependentLayers_init ::
  "nat list \<Rightarrow> int \<Rightarrow> real \<Rightarrow> real \<Rightarrow> real \<Rightarrow> error + PriorMLPIndependentLayers" where
  "PriorMLPIndependentLayers_init output_sizes index_dim weight_scaling bias_scaling fixed_bias_val =
     (case layers_indices index_dim (length output_sizes) of
        Inl e \<Rightarrow> Inl e
      | Inr lis \<Rightarrow>
          Inr \<lparr>pm_output_sizes = output_sizes,
               pm_num_layers = length output_sizes,
               pm_index_dim = index_dim,
               pm_weight_scaling = weight_scaling,
               pm_bias_scaling = bias_scaling,
               pm_fixed_bias_val = fixed_bias_val,
               pm_layers_indices = lis,
               pm_layers =
                 map (\<lambda>(layer_indices, output_size).
                        \<lparr>hl_output_size = output_size,
                         hl_index_dim_per_layer = length layer_indices,
                         hl_weight_scaling = weight_scaling,
                         hl_bias_scaling = bias_scaling,
                         hl_fixed_bias_val = fixed_bias_val\<rparr>)
                     (zip lis output_sizes)\<rparr>)"

text \<open>Lines 321 to 326 of \<^verbatim>\<open>__call__\<close>: \<^verbatim>\<open>index_layers\<close>.\<close>

definition index_layers :: "PriorMLPIndependentLayers \<Rightarrow> tensor \<Rightarrow> error + tensor list" where
  "index_layers pm z =
     (if pm_index_dim pm < int (pm_num_layers pm) then Inr (replicate (pm_num_layers pm) z)
      else array_split_tensor z (pm_num_layers pm))"

text \<open>
  The loop of \<^verbatim>\<open>__call__\<close>, lines 328 to 334, from layer \<open>i\<close> on: layer \<open>i\<close> is applied to
  the running output and to \<^verbatim>\<open>index_layers[i]\<close>, with the parameters of the \<open>i\<close>-th
  \<^verbatim>\<open>HyperLinear\<close>, and every layer but the last is followed by \<^verbatim>\<open>relu\<close>.
\<close>

fun run_layers ::
  "nat \<Rightarrow> nat \<Rightarrow> HyperLinear list \<Rightarrow> hk_frame list \<Rightarrow> tensor list \<Rightarrow> tensor \<Rightarrow> error + tensor" where
  "run_layers i num_layers [] frs ils out = Inr out"
| "run_layers i num_layers (layer # rest) frs ils out =
     (if length ils \<le> i then Inl IndexError
      else if length frs \<le> i then Inl ValueError
      else
        (case HyperLinear_call layer (frs ! i) out (ils ! i) of
           Inl e \<Rightarrow> Inl e
         | Inr y \<Rightarrow>
             run_layers (i + 1) num_layers rest frs ils
               (if int i < int num_layers - 1 then relu y else y)))"

text \<open>\<^verbatim>\<open>PriorMLPIndependentLayers.__call__\<close>.\<close>

definition PriorMLPIndependentLayers_call ::
  "PriorMLPIndependentLayers \<Rightarrow> hk_frame list \<Rightarrow> tensor \<Rightarrow> tensor \<Rightarrow> error + tensor" where
  "PriorMLPIndependentLayers_call pm frs x z =
     (case index_layers pm z of
        Inl e \<Rightarrow> Inl e
      | Inr ils \<Rightarrow> run_layers 0 (pm_num_layers pm) (pm_layers pm) frs ils x)"

section \<open>MLPHypermodelPriorIndependentLayers\<close>

text \<open>\<^verbatim>\<open>if problem_temperature: net_out /= problem_temperature\<close>: \<open>None\<close> and zero are false.\<close>

definition temperature_div :: "real option \<Rightarrow> tensor \<Rightarrow> tensor" where
  "temperature_div problem_temperature net_out =
     (case problem_temperature of
        None \<Rightarrow> net_out
      | Some t \<Rightarrow> if t = 0 then net_out else net_out\<lparr>data := map (\<lambda>a. a / t) (data net_out)\<rparr>)"

text \<open>\<^verbatim>\<open>base_net\<close>, lines 360 to 366, transformed.\<close>

definition base_net_transformed ::
  "haiku \<Rightarrow> nat list \<Rightarrow> initializer option \<Rightarrow> initializer option \<Rightarrow> real option \<Rightarrow> transformed" where
  "base_net_transformed hk base_output_sizes w_init b_init problem_temperature =
     \<lparr>tb_init = tb_init (hk_nets_MLP hk base_output_sizes w_init b_init),
      tb_apply =
        (\<lambda>p x. case tb_apply (hk_nets_MLP hk base_output_sizes w_init b_init) p x of
                  Inl e \<Rightarrow> Inl e
                | Inr net_out \<Rightarrow> Inr (temperature_div problem_temperature net_out))\<rparr>"

text \<open>\<^verbatim>\<open>prior_net\<close>, lines 374 to 383, on the parameters of its layers.\<close>

definition prior_net ::
  "nat list \<Rightarrow> int \<Rightarrow> real \<Rightarrow> real \<Rightarrow> real \<Rightarrow> real option \<Rightarrow> hk_frame list \<Rightarrow> tensor \<Rightarrow> tensor \<Rightarrow> error + tensor" where
  "prior_net prior_base_output_sizes index_dim prior_weight_scaling prior_bias_scaling
       prior_fixed_bias_val problem_temperature frs x z =
     (case PriorMLPIndependentLayers_init prior_base_output_sizes index_dim prior_weight_scaling
             prior_bias_scaling prior_fixed_bias_val of
        Inl e \<Rightarrow> Inl e
      | Inr pm \<Rightarrow>
          (case PriorMLPIndependentLayers_call pm frs x z of
             Inl e \<Rightarrow> Inl e
           | Inr net_out \<Rightarrow> Inr (temperature_div problem_temperature net_out)))"

text \<open>
  \<^verbatim>\<open>MLPHypermodelPriorIndependentLayers.__init__\<close>. \<^verbatim>\<open>next(hk.PRNGSequence(seed))\<close> is the
  key \<open>SequenceKey seed 0\<close>, both times; line 373 unpacks the shape of the index, which
  must have one dimension.
\<close>

definition MLPHypermodelPriorIndependentLayers ::
  "haiku \<Rightarrow> nat list \<Rightarrow> real \<Rightarrow> tensor \<Rightarrow> (prng_key \<Rightarrow> tensor) \<Rightarrow> nat list \<Rightarrow> nat list option \<Rightarrow>
   initializer option \<Rightarrow> initializer option \<Rightarrow> bool \<Rightarrow> real \<Rightarrow> real \<Rightarrow> real \<Rightarrow> int \<Rightarrow> bool \<Rightarrow>
   real option \<Rightarrow> error + tensor params hyper_params epistemic_network" where
  "MLPHypermodelPriorIndependentLayers hk base_output_sizes prior_scale dummy_input indexer
       prior_base_output_sizes hyper_hidden_sizes w_init b_init return_generated_params
       prior_weight_scaling prior_bias_scaling prior_fixed_bias_val seed scale problem_temperature =
     (let transformed_base =
            base_net_transformed hk base_output_sizes w_init b_init problem_temperature;
          index = indexer (SequenceKey seed 0)
      in case shape index of
           [index_dim] \<Rightarrow>
             (let prior_enn_apply =
                    prior_net prior_base_output_sizes (int index_dim) prior_weight_scaling
                      prior_bias_scaling prior_fixed_bias_val problem_temperature
              in case hk_init_prior hk prior_enn_apply (SequenceKey seed 0) dummy_input index of
                   Inl e \<Rightarrow> Inl e
                 | Inr prior_params \<Rightarrow>
                     (case MLPHypermodel hk transformed_base dummy_input indexer
                             hyper_hidden_sizes return_generated_params scale w_init b_init of
                        Inl e \<Rightarrow> Inl e
                      | Inr enn_wo_prior \<Rightarrow>
                          Inr (EnnWithAdditivePrior enn_wo_prior
                                 (\<lambda>x z. prior_enn_apply prior_params x z) prior_scale)))
         | _ \<Rightarrow> Inl ValueError)"

section \<open>A small network for the examples\<close>

text \<open>
  A base network with one module, a bias of shape \<open>[1]\<close> and a weight of shape \<open>[1, 1]\<close>,
  whose \<^verbatim>\<open>apply\<close> returns its input; the module that \<^verbatim>\<open>hypermodel_module\<close> builds for it
  with the identity torso; parameters for its two \<^verbatim>\<open>hk.Linear\<close> layers; and the arrays
  that \<^verbatim>\<open>hyper_fn\<close> generates for the index \<open>[1]\<close>.
\<close>

abbreviation ex_base_params :: "tensor params" where
  "ex_base_params \<equiv>
     [(''linear'', [(''b'', \<lparr>shape = [1], data = [0]\<rparr>), (''w'', \<lparr>shape = [1, 1], data = [0]\<rparr>)])]"

abbreviation ex_base :: transformed where
  "ex_base \<equiv> \<lparr>tb_init = (\<lambda>k x. Inr ex_base_params), tb_apply = (\<lambda>p x. Inr x)\<rparr>"

abbreviation ex_input :: tensor where
  "ex_input \<equiv> \<lparr>shape = [1, 1], data = [0]\<rparr>"

abbreviation ex_index :: tensor where
  "ex_index \<equiv> \<lparr>shape = [1], data = [1]\<rparr>"

abbreviation ex_torso :: "tensor params \<Rightarrow> tensor \<Rightarrow> error + tensor" where
  "ex_torso \<equiv> (\<lambda>p x. Inr x)"

abbreviation ex_module :: "tensor params hypermodule" where
  "ex_module \<equiv>
     \<lparr>hm_transformed_base = ex_base, hm_hyper_torso = ex_torso,
      hm_diagonal_linear_hyper = False, hm_return_generated_params = False, hm_scale = True,
      hm_base_shapes = [(''linear'', [(''b'', [1]), (''w'', [1, 1])])],
      hm_base_shapes_flat = [(''linear'', [(''b'', 1), (''w'', 1)])]\<rparr>"

abbreviation ex_frame :: hk_frame where
  "ex_frame \<equiv> Apply [''w'' \<mapsto> \<lparr>shape = [1, 1], data = [2]\<rparr>, ''b'' \<mapsto> \<lparr>shape = [1], data = [3]\<rparr>]"

abbreviation ex_hyper_params :: "tensor params hyper_params" where
  "ex_hyper_params \<equiv> \<lparr>hp_torso = [], hp_diagonal = Apply (\<lambda>n. None), hp_linear = [ex_frame, ex_frame]\<rparr>"

abbreviation ex_flat_output :: "tensor params" where
  "ex_flat_output \<equiv>
     [(''linear'', [(''b'', \<lparr>shape = [1], data = [5]\<rparr>), (''w'', \<lparr>shape = [1], data = [5]\<rparr>)])]"

abbreviation ex_generated :: "tensor params" where
  "ex_generated \<equiv>
     [(''linear'', [(''b'', \<lparr>shape = [1], data = [5]\<rparr>), (''w'', \<lparr>shape = [1, 1], data = [5]\<rparr>)])]"

abbreviation ex_haiku :: haiku where
  "ex_haiku \<equiv>
     \<lparr>hk_nets_MLP = (\<lambda>sizes w_init b_init. ex_base),
      hk_init_hyper = (\<lambda>hm key x z. Inr ex_hyper_params),
      hk_init_prior =
        (\<lambda>f key x z. Inr [Apply [''w'' \<mapsto> \<lparr>shape = [1, 1, 1], data = [2]\<rparr>,
                                   ''b'' \<mapsto> \<lparr>shape = [1, 1], data = [2]\<rparr>]])\<rparr>"

text \<open>The indexer that always draws the index \<open>[1]\<close>, and the hypermodel of the example.\<close>

abbreviation ex_indexer :: "prng_key \<Rightarrow> tensor" where
  "ex_indexer \<equiv> (\<lambda>key. ex_index)"

abbreviation ex_network :: "tensor params hyper_params epistemic_network" where
  "ex_network \<equiv>
     epistemic_network_from_module (\<lambda>p inputs index. hyper_fn ex_module p inputs index)
       (hk_init_hyper ex_haiku ex_module) ex_indexer"


text \<open>The parameters and the layer of a prior network with one layer.\<close>

abbreviation ex_prior_frames :: "hk_frame list" where
  "ex_prior_frames \<equiv>
     [Apply [''w'' \<mapsto> \<lparr>shape = [1, 1, 1], data = [2]\<rparr>, ''b'' \<mapsto> \<lparr>shape = [1, 1], data = [2]\<rparr>]]"

abbreviation ex_prior_layer :: HyperLinear where
  "ex_prior_layer \<equiv>
     \<lparr>hl_output_size = 1, hl_index_dim_per_layer = 1, hl_weight_scaling = 1,
      hl_bias_scaling = 1, hl_fixed_bias_val = 0\<rparr>"

section \<open>Properties of DiagonalLinear\<close>


lemma get_parameter_shape: "get_parameter fr name shp i = Inr p \<Longrightarrow> shape p = shp"
  by (auto simp: get_parameter_def check_shape_def split: hk_frame.splits option.splits if_splits)

lemma get_parameter_err: "get_parameter fr name shp i = Inl e \<Longrightarrow> e = ValueError"
  by (auto simp: get_parameter_def check_shape_def split: hk_frame.splits option.splits if_splits)

lemma shape_bcast_last: "shape (bcast_last f x v) = shape x"
  by (simp add: bcast_last_def)

lemma length_bcast_last: "length (data (bcast_last f x v)) = length (data x)"
  by (simp add: bcast_last_def)


lemma DiagonalLinear_call_Inl:
  "(DiagonalLinear_call dl fr x = Inl e) =
     (e = ValueError \<and> (shape x = [] \<or> \<not> dl_params_ok dl fr (last (shape x))))"
  by (cases "get_parameter fr ''w'' [last (shape x)] (dl_weight_init dl (last (shape x)))";
      cases "get_parameter fr ''b'' [last (shape x)] (dl_b_init dl)")
     (auto simp: DiagonalLinear_call_def dl_params_ok_def Let_def dest: get_parameter_err)

lemma DiagonalLinear_call_Inr:
  "DiagonalLinear_call dl fr x = Inr (y, dl') \<Longrightarrow>
   shape y = shape x \<and> length (data y) = length (data x) \<and>
   dl' = dl\<lparr>dl_input_size := Some (last (shape x))\<rparr>"
  by (auto simp: DiagonalLinear_call_def Let_def shape_bcast_last length_bcast_last
           split: if_splits sum.splits)

text \<open>
  Claim C8, as the code has it. \<^verbatim>\<open>DiagonalLinear.__call__\<close> fails only with
  \<^verbatim>\<open>ValueError\<close>, and it fails exactly when the input is a scalar (the guard of the
  method) or when \<^verbatim>\<open>hk.get_parameter\<close> does not deliver a weight (and, with a bias, a
  bias) of shape \<open>[inputs.shape[-1]]\<close>. Every normal return has the shape of the input
  and as many elements.
\<close>

theorem DiagonalLinear_call_outcome:
  "((DiagonalLinear_call dl fr x = Inl e) =
      (e = ValueError \<and> (shape x = [] \<or> \<not> dl_params_ok dl fr (last (shape x))))) \<and>
   (DiagonalLinear_call dl fr x = Inr (y, dl') \<longrightarrow>
      shape y = shape x \<and> length (data y) = length (data x))"
  using DiagonalLinear_call_Inl [of dl fr x e] DiagonalLinear_call_Inr [of dl fr x y dl']
  by blast

theorem DiagonalLinear_call_outcome_witness:
  "dl_params_ok (DiagonalLinear_init True None None)
     (Apply [''w'' \<mapsto> \<lparr>shape = [2], data = [0, 0]\<rparr>, ''b'' \<mapsto> \<lparr>shape = [2], data = [0, 0]\<rparr>]) 2 \<and>
   DiagonalLinear_call (DiagonalLinear_init True None None)
     (Apply [''w'' \<mapsto> \<lparr>shape = [2], data = [0, 0]\<rparr>, ''b'' \<mapsto> \<lparr>shape = [2], data = [0, 0]\<rparr>])
     \<lparr>shape = [2], data = [1, 2]\<rparr> \<noteq> Inl ValueError \<and>
   shape \<lparr>shape = [2], data = [1 * softplus 0 + 0, 2 * softplus 0 + 0]\<rparr> = [2]"
proof -
  let ?D = "DiagonalLinear_init True None None"
  let ?F = "Apply [''w'' \<mapsto> \<lparr>shape = [2], data = [0, 0]\<rparr>, ''b'' \<mapsto> \<lparr>shape = [2], data = [0, 0]\<rparr>]"
  let ?X = "\<lparr>shape = [2], data = [1, 2]\<rparr>"
  let ?Y = "\<lparr>shape = [2], data = [1 * softplus 0 + 0, 2 * softplus 0 + 0]\<rparr>"
  have ok: "dl_params_ok ?D ?F 2"
    by (simp add: dl_params_ok_def DiagonalLinear_init_def get_parameter_def check_shape_def)
  have run: "DiagonalLinear_call ?D ?F ?X = Inr (?Y, ?D\<lparr>dl_input_size := Some 2\<rparr>)"
    by (simp add: DiagonalLinear_call_def DiagonalLinear_init_def get_parameter_def
        check_shape_def bcast_last_def upt_rec)
  from DiagonalLinear_call_outcome [of ?D ?F ?X ValueError ?Y "?D\<lparr>dl_input_size := Some 2\<rparr>"] ok run
  show ?thesis by simp
qed

text \<open>
  Claim C8, as stated, fails: a vector of length 2 is not a scalar, and the call still
  raises \<^verbatim>\<open>ValueError\<close> when the stored weight has shape \<open>[3]\<close>.
\<close>

theorem DiagonalLinear_call_nonscalar_ValueError:
  "shape \<lparr>shape = [2], data = [1, 2]\<rparr> \<noteq> [] \<and>
   DiagonalLinear_call (DiagonalLinear_init True None None)
     (Apply [''w'' \<mapsto> \<lparr>shape = [3], data = [0, 0, 0]\<rparr>, ''b'' \<mapsto> \<lparr>shape = [3], data = [0, 0, 0]\<rparr>])
     \<lparr>shape = [2], data = [1, 2]\<rparr> = Inl ValueError"
  by (simp add: DiagonalLinear_call_def DiagonalLinear_init_def get_parameter_def check_shape_def)



section \<open>Properties of the hypermodel\<close>

lemma traverse_Cons_Inr:
  "(traverse f (x # xs) = Inr ys) = (\<exists>y ys'. ys = y # ys' \<and> f x = Inr y \<and> traverse f xs = Inr ys')"
  by (auto split: sum.splits)

lemma traverse_Inr_iff: "(traverse f xs = Inr ys) = list_all2 (\<lambda>x y. f x = Inr y) xs ys"
proof (induction xs arbitrary: ys)
  case Nil
  show ?case by auto
next
  case (Cons x xs)
  show ?case
    unfolding traverse_Cons_Inr list_all2_Cons1 Cons by blast
qed

lemma zip_unit_names:
  fixes ps :: "(string \<times> unit) list"
  shows "length ps \<le> length ls \<Longrightarrow> map (\<lambda>(n, v). (n, ())) (zip (map fst ps) (take (length ps) ls)) = ps"
proof (induction ps arbitrary: ls)
  case Nil
  show ?case by simp
next
  case (Cons p ps)
  then show ?case by (cases ls; cases p) auto
qed

lemma tree_leaves_Nil: "tree_leaves [] = []"
  by (simp add: tree_leaves_def)

lemma tree_leaves_Cons: "tree_leaves ((m, ps) # t) = map snd ps @ tree_leaves t"
  by (simp add: tree_leaves_def)

lemma tree_map_Nil: "tree_map f [] = []"
  by (simp add: tree_map_def)

lemma tree_map_Cons: "tree_map f ((m, ps) # t) = (m, map (\<lambda>(n, v). (n, f v)) ps) # tree_map f t"
  by (simp add: tree_map_def)

lemma tree_leaves_tree_map: "tree_leaves (tree_map f t) = map f (tree_leaves t)"
  by (induction t) (auto simp: tree_leaves_Nil tree_leaves_Cons tree_map_Nil tree_map_Cons)

lemma tree_map_tree_map: "tree_map f (tree_map g t) = tree_map (\<lambda>x. f (g x)) t"
  by (induction t) (auto simp: tree_map_Nil tree_map_Cons)

lemma tree_structure_tree_map: "tree_structure (tree_map f t) = tree_structure t"
  by (simp add: tree_structure_def tree_map_tree_map)

lemma length_leaves_structure: "length (tree_leaves (tree_structure t)) = length (tree_leaves t)"
  by (simp add: tree_structure_def tree_leaves_tree_map)

lemma zip_fst_map_snd: "zip (map fst ps) (map f (map snd ps)) = map (\<lambda>(n, v). (n, f v)) ps"
  by (induction ps) auto

lemma fill_leaves_tree_map: "fill_leaves (tree_structure t) (map f (tree_leaves t)) = tree_map f t"
proof (induction t)
  case Nil
  show ?case by (simp add: tree_structure_def tree_map_Nil tree_leaves_Nil)
next
  case (Cons a t)
  obtain m ps where a: "a = (m, ps)" by (cases a)
  have "zip (map fst ps) (map f (map snd ps)) = map (\<lambda>(n, v). (n, f v)) ps"
    by (rule zip_fst_map_snd)
  with Cons show ?case
    by (simp add: a tree_structure_def tree_map_Cons tree_leaves_Cons comp_def case_prod_unfold)
qed

lemma fill_leaves_map: "tree_map f (fill_leaves st ls) = fill_leaves st (map f ls)"
proof (induction st ls rule: fill_leaves.induct)
  case (1 ls)
  show ?case by (simp add: tree_map_Nil)
next
  case (2 m ps t ls)
  then show ?case
    by (simp add: tree_map_Cons zip_map2 take_map drop_map case_prod_unfold)
qed

lemma tree_structure_fill_leaves:
  "length ls = length (tree_leaves st) \<Longrightarrow> tree_structure (fill_leaves st ls) = st"
proof (induction st ls rule: fill_leaves.induct)
  case (1 ls)
  show ?case by (simp add: tree_structure_def tree_map_Nil)
next
  case (2 m ps t ls)
  have "map (\<lambda>(n, v). (n, ())) (zip (map fst ps) (take (length ps) ls)) = ps"
    using 2(2) by (intro zip_unit_names) (simp add: tree_leaves_Cons)
  with 2 show ?case
    by (simp add: tree_structure_def tree_map_Cons tree_leaves_Cons)
qed

lemma tree_leaves_fill_leaves:
  "length ls = length (tree_leaves st) \<Longrightarrow> tree_leaves (fill_leaves st ls) = ls"
proof (induction st ls rule: fill_leaves.induct)
  case (1 ls)
  then show ?case by (simp add: tree_leaves_Nil)
next
  case (2 m ps t ls)
  have "map snd (zip (map fst ps) (take (length ps) ls)) = take (length ps) ls"
    using 2(2) by (simp add: tree_leaves_Cons)
  with 2 show ?case
    by (simp add: tree_leaves_Cons)
qed

lemma reshape_shape: "reshape a shp = Inr b \<Longrightarrow> shape b = shp \<and> data b = data a"
  by (auto simp: reshape_def split: if_splits)

lemma tree_multimap_reshape_shapes:
  assumes "tree_multimap reshape fo bs = Inr gp"
  shows "tree_map shape gp = bs"
proof -
  from assms have st: "tree_structure bs = tree_structure fo"
    by (auto simp: tree_multimap_def split: if_splits)
  from assms obtain ls where tr: "traverse (\<lambda>(a, b). reshape a b) (zip (tree_leaves fo) (tree_leaves bs)) = Inr ls"
    and gp: "gp = fill_leaves (tree_structure fo) ls"
    by (auto simp: tree_multimap_def split: if_splits sum.splits)
  have len: "length (tree_leaves fo) = length (tree_leaves bs)"
    using st length_leaves_structure [of fo] length_leaves_structure [of bs] by simp
  from tr have la: "list_all2 (\<lambda>x y. (case x of (a, b) \<Rightarrow> reshape a b) = Inr y) (zip (tree_leaves fo) (tree_leaves bs)) ls"
    by (simp add: traverse_Inr_iff)
  have "map shape ls = tree_leaves bs"
  proof (rule nth_equalityI)
    show "length (map shape ls) = length (tree_leaves bs)"
      using list_all2_lengthD [OF la] len by simp
  next
    fix i assume "i < length (map shape ls)"
    then have i: "i < length ls" by simp
    with list_all2_lengthD [OF la] len have i2: "i < length (tree_leaves fo)" "i < length (tree_leaves bs)" by simp_all
    from list_all2_nthD2 [OF la i] i2
    have "reshape (tree_leaves fo ! i) (tree_leaves bs ! i) = Inr (ls ! i)" by simp
    then show "map shape ls ! i = tree_leaves bs ! i"
      using i by (simp add: reshape_shape)
  qed
  then have "tree_map shape gp = fill_leaves (tree_structure bs) (tree_leaves bs)"
    by (simp add: gp fill_leaves_map st)
  also have "\<dots> = bs"
    using fill_leaves_tree_map [of bs id] by (simp add: tree_map_def case_prod_unfold)
  finally show ?thesis .
qed


lemma traverse_Inr_map:
  assumes "traverse f xs = Inr ys"
    and "\<And>x y. x \<in> set xs \<Longrightarrow> f x = Inr y \<Longrightarrow> y = g x"
  shows "ys = map g xs"
  using assms
proof (induction xs arbitrary: ys)
  case Nil
  then show ?case by simp
next
  case (Cons x xs)
  from Cons.prems(1) obtain y ys' where ys: "ys = y # ys'" and fx: "f x = Inr y"
    and tr: "traverse f xs = Inr ys'"
    unfolding traverse_Cons_Inr by blast
  have "y = g x" using Cons.prems(2) [of x y] fx by simp
  moreover have "ys' = map g xs"
    using Cons.IH [OF tr] Cons.prems(2) by simp
  ultimately show ?case by (simp add: ys)
qed

lemma shape_scaled_leaf: "shape (scaled_leaf n v) = shape v"
  by (simp add: scaled_leaf_def)

lemma scale_fn_eq:
  "scale_fn m n v = (if n = ''w'' \<and> shape v = [] then Inl IndexError else Inr (scaled_leaf n v))"
  by (cases "shape v") (auto simp: scale_fn_def scaled_leaf_def)

lemma scale_fn_Inr: "scale_fn m n v = Inr v' \<Longrightarrow> v' = scaled_leaf n v"
  by (simp add: scale_fn_eq split: if_splits)

lemma hk_map_scale_fn_Inr:
  assumes "hk_map scale_fn gp = Inr gps"
  shows "gps = map (\<lambda>(m, ps). (m, map (\<lambda>(n, v). (n, scaled_leaf n v)) ps)) gp"
proof (rule traverse_Inr_map [OF assms [unfolded hk_map_def]])
  fix x y
  assume "(case x of (m, ps) \<Rightarrow>
             (case traverse (\<lambda>(n, v). case scale_fn m n v of Inl e \<Rightarrow> Inl e | Inr v' \<Rightarrow> Inr (n, v')) ps of
                Inl e \<Rightarrow> Inl e | Inr ps' \<Rightarrow> Inr (m, ps'))) = Inr y"
  then obtain m ps ps' where x: "x = (m, ps)" and y: "y = (m, ps')"
    and tr: "traverse (\<lambda>(n, v). case scale_fn m n v of Inl e \<Rightarrow> Inl e | Inr v' \<Rightarrow> Inr (n, v')) ps = Inr ps'"
    by (cases x) (auto split: sum.splits)
  have "ps' = map (\<lambda>(n, v). (n, scaled_leaf n v)) ps"
    by (rule traverse_Inr_map [OF tr]) (auto split: sum.splits dest: scale_fn_Inr)
  then show "y = (case x of (m, ps) \<Rightarrow> (m, map (\<lambda>(n, v). (n, scaled_leaf n v)) ps))"
    by (simp add: x y)
qed

lemma tree_map_shape_scaled:
  "tree_map shape (map (\<lambda>(m, ps). (m, map (\<lambda>(n, v). (n, scaled_leaf n v)) ps)) gp) = tree_map shape gp"
  by (simp add: tree_map_def case_prod_unfold comp_def shape_scaled_leaf)

lemma generated_params_scaled_Inr:
  assumes "generated_params_scaled hm gp = Inr gps"
  shows "gps = (if hm_scale hm then map (\<lambda>(m, ps). (m, map (\<lambda>(n, v). (n, scaled_leaf n v)) ps)) gp else gp)"
  using assms hk_map_scale_fn_Inr [of gp gps]
  by (auto simp: generated_params_scaled_def split: if_splits)

lemma generated_params_scaled_shapes:
  assumes "generated_params_scaled hm gp = Inr gps"
  shows "tree_map shape gps = tree_map shape gp"
  using generated_params_scaled_Inr [OF assms] by (simp add: tree_map_shape_scaled)

lemma generated_params_shapes:
  assumes "generated_params hm hp index = Inr gp"
  shows "tree_map shape gp = hm_base_shapes hm"
  using assms
  by (auto simp: generated_params_def split: sum.splits dest: tree_multimap_reshape_shapes)

lemma hypermodel_module_Inr:
  assumes "hypermodel_module tb dummy torso dlh rgp sc = Inr hm"
  shows "\<exists>bp. tb_init tb (PRNGKey 0) dummy = Inr bp \<and>
           hm = \<lparr>hm_transformed_base = tb, hm_hyper_torso = torso, hm_diagonal_linear_hyper = dlh,
                 hm_return_generated_params = rgp, hm_scale = sc,
                 hm_base_shapes = tree_map shape bp,
                 hm_base_shapes_flat = tree_map (\<lambda>x. prod_list (shape x)) bp\<rparr>"
  using assms
  by (auto simp: hypermodel_module_def Let_def tree_map_tree_map ravel_def split: sum.splits)

lemma hyper_fn_Inr:
  assumes "hyper_fn hm hp inputs index = Inr out"
  shows "\<exists>gp gps y. generated_params hm hp index = Inr gp \<and>
           generated_params_scaled hm gp = Inr gps \<and>
           tb_apply (hm_transformed_base hm) gps inputs = Inr y \<and>
           out = (if hm_return_generated_params hm
                  then OutputWithPrior y [(''hyper_net_out'', gp), (''base_net_params'', gps)]
                  else Array y)"
  using assms
  by (auto simp: hyper_fn_def split: sum.splits if_splits)

text \<open>
  Claim C1. Whenever \<^verbatim>\<open>hyper_fn\<close> returns for an index, the parameters it generated, before
  and after scaling, have the tree structure of the base parameters that
  \<^verbatim>\<open>transformed_base.init\<close> gave at construction, and every leaf has the shape of the base
  leaf at its place; \<^verbatim>\<open>transformed_base.apply\<close> was given these parameters and returned.
\<close>

theorem generated_params_match_base_params:
  assumes "hypermodel_module tb dummy torso dlh rgp sc = Inr hm"
    and "hyper_fn hm hp inputs index = Inr out"
  shows "\<exists>bp gp gps y.
           tb_init tb (PRNGKey 0) dummy = Inr bp \<and>
           generated_params hm hp index = Inr gp \<and>
           generated_params_scaled hm gp = Inr gps \<and>
           tree_structure gp = tree_structure bp \<and> tree_map shape gp = tree_map shape bp \<and>
           tree_structure gps = tree_structure bp \<and> tree_map shape gps = tree_map shape bp \<and>
           tb_apply tb gps inputs = Inr y"
proof -
  from hypermodel_module_Inr [OF assms(1)] obtain bp where
    bp: "tb_init tb (PRNGKey 0) dummy = Inr bp"
    and tb: "hm_transformed_base hm = tb" and bs: "hm_base_shapes hm = tree_map shape bp"
    by auto
  from hyper_fn_Inr [OF assms(2)] obtain gp gps y where
    gp: "generated_params hm hp index = Inr gp"
    and gps: "generated_params_scaled hm gp = Inr gps"
    and y: "tb_apply (hm_transformed_base hm) gps inputs = Inr y"
    by blast
  have s1: "tree_map shape gp = tree_map shape bp"
    using generated_params_shapes [OF gp] bs by simp
  have s2: "tree_map shape gps = tree_map shape bp"
    using generated_params_scaled_shapes [OF gps] s1 by simp
  have t1: "tree_structure gp = tree_structure bp"
    using arg_cong [OF s1, of tree_structure] by (simp add: tree_structure_tree_map)
  have t2: "tree_structure gps = tree_structure bp"
    using arg_cong [OF s2, of tree_structure] by (simp add: tree_structure_tree_map)
  from bp gp gps s1 s2 t1 t2 y tb show ?thesis by auto
qed


text \<open>
  Claim C2. \<^verbatim>\<open>scale_fn\<close> divides every element of a parameter named \<open>w\<close> by the square
  root of its first dimension and returns any other parameter as it is; with scaling
  enabled, the scaled parameters are the generated ones with every leaf treated so. (When
  the first dimension is zero a well-formed array has no element, so nothing is divided by
  zero.)
\<close>

theorem scale_fn_scales_weights_only:
  "(name = ''w'' \<and> shape v = n # rest \<longrightarrow>
      scale_fn module_name name v = Inr (v\<lparr>data := map (\<lambda>a. a / sqrt (real n)) (data v)\<rparr>)) \<and>
   (name \<noteq> ''w'' \<longrightarrow> scale_fn module_name name v = Inr v) \<and>
   (hm_scale hm \<and> generated_params_scaled hm gp = Inr gps \<longrightarrow>
      gps = map (\<lambda>(m, ps). (m, map (\<lambda>(k, a). (k, scaled_leaf k a)) ps)) gp)"
  using generated_params_scaled_Inr [of hm gp gps]
  by (auto simp: scale_fn_def)

lemma hyper_fn_cong:
  assumes "tb_apply (hm_transformed_base hm') = tb_apply (hm_transformed_base hm)"
    and "hm_hyper_torso hm' = hm_hyper_torso hm"
    and "hm_diagonal_linear_hyper hm' = hm_diagonal_linear_hyper hm"
    and "hm_return_generated_params hm' = hm_return_generated_params hm"
    and "hm_scale hm' = hm_scale hm"
    and "hm_base_shapes hm' = hm_base_shapes hm"
    and "hm_base_shapes_flat hm' = hm_base_shapes_flat hm"
  shows "hyper_fn hm' = hyper_fn hm"
proof -
  have fo: "flat_output hm' = flat_output hm"
    unfolding flat_output_def assms by (rule refl)
  have gp: "generated_params hm' = generated_params hm"
    unfolding generated_params_def fo assms by (rule refl)
  have gs: "generated_params_scaled hm' = generated_params_scaled hm"
    unfolding generated_params_scaled_def assms by (rule refl)
  show ?thesis
    unfolding hyper_fn_def gp gs assms by (rule refl)
qed

lemma hypermodel_module_ok:
  assumes "tb_init tb (PRNGKey 0) dummy = Inr bp"
  shows "hypermodel_module tb dummy torso dlh rgp sc =
           Inr \<lparr>hm_transformed_base = tb, hm_hyper_torso = torso, hm_diagonal_linear_hyper = dlh,
                 hm_return_generated_params = rgp, hm_scale = sc,
                 hm_base_shapes = tree_map shape bp,
                 hm_base_shapes_flat = tree_map (\<lambda>x. prod_list (shape x)) bp\<rparr>"
  using assms
  by (simp add: hypermodel_module_def Let_def tree_map_tree_map ravel_def)

text \<open>
  Claim C6. \<^verbatim>\<open>hypermodel_module\<close> takes the shapes of the base parameters from
  \<^verbatim>\<open>transformed_base.init(PRNGKey(0), dummy_input)\<close> and from nothing else: the shapes it
  stores are those of that tree, every later evaluation generates parameters of these
  shapes, whatever the hypermodel parameters and the index, and a transformed base with the
  same \<^verbatim>\<open>apply\<close> that gives the same tree for this key and this input yields the same
  \<^verbatim>\<open>hyper_fn\<close>.
\<close>

theorem base_shapes_fixed_at_construction:
  assumes "tb_init tb (PRNGKey 0) dummy = Inr bp"
  shows "\<exists>hm. hypermodel_module tb dummy torso dlh rgp sc = Inr hm \<and>
           hm_base_shapes hm = tree_map shape bp \<and>
           hm_base_shapes_flat hm = tree_map (\<lambda>x. prod_list (shape x)) bp \<and>
           (\<forall>hp index gp. generated_params hm hp index = Inr gp \<longrightarrow>
                tree_map shape gp = tree_map shape bp) \<and>
           (\<forall>tb'. tb_init tb' (PRNGKey 0) dummy = Inr bp \<and> tb_apply tb' = tb_apply tb \<longrightarrow>
                (\<exists>hm'. hypermodel_module tb' dummy torso dlh rgp sc = Inr hm' \<and>
                       hyper_fn hm' = hyper_fn hm))"
proof -
  let ?hm = "\<lparr>hm_transformed_base = tb, hm_hyper_torso = torso, hm_diagonal_linear_hyper = dlh,
              hm_return_generated_params = rgp, hm_scale = sc,
              hm_base_shapes = tree_map shape bp,
              hm_base_shapes_flat = tree_map (\<lambda>x. prod_list (shape x)) bp\<rparr>"
  have hm: "hypermodel_module tb dummy torso dlh rgp sc = Inr ?hm"
    by (rule hypermodel_module_ok [OF assms])
  have shapes: "\<forall>hp index gp. generated_params ?hm hp index = Inr gp \<longrightarrow>
                  tree_map shape gp = tree_map shape bp"
    using generated_params_shapes [of ?hm] by simp
  have other: "\<forall>tb'. tb_init tb' (PRNGKey 0) dummy = Inr bp \<and> tb_apply tb' = tb_apply tb \<longrightarrow>
                (\<exists>hm'. hypermodel_module tb' dummy torso dlh rgp sc = Inr hm' \<and>
                       hyper_fn hm' = hyper_fn ?hm)"
  proof (intro allI impI)
    fix tb' :: transformed
    assume a: "tb_init tb' (PRNGKey 0) dummy = Inr bp \<and> tb_apply tb' = tb_apply tb"
    let ?hm' = "\<lparr>hm_transformed_base = tb', hm_hyper_torso = torso, hm_diagonal_linear_hyper = dlh,
                 hm_return_generated_params = rgp, hm_scale = sc,
                 hm_base_shapes = tree_map shape bp,
                 hm_base_shapes_flat = tree_map (\<lambda>x. prod_list (shape x)) bp\<rparr>"
    have "hypermodel_module tb' dummy torso dlh rgp sc = Inr ?hm'"
      using a by (intro hypermodel_module_ok) simp
    moreover have "hyper_fn ?hm' = hyper_fn ?hm"
      using a by (intro hyper_fn_cong) simp_all
    ultimately show "\<exists>hm'. hypermodel_module tb' dummy torso dlh rgp sc = Inr hm' \<and>
                       hyper_fn hm' = hyper_fn ?hm"
      by blast
  qed
  from hm shapes other show ?thesis
    by (intro exI [of _ ?hm]) simp
qed

lemma shape_hk_Linear:
  "hk_Linear n fr x = Inr y \<Longrightarrow> shape y = butlast (shape x) @ [n]"
  by (auto simp: hk_Linear_def Let_def linear_dot_def shape_bcast_last split: if_splits sum.splits)

lemma flat_output_linear:
  assumes "\<not> hm_diagonal_linear_hyper hm"
    and "flat_output hm hp index = Inr fo"
  shows "\<exists>hyper_index ls.
           hm_hyper_torso hm (hp_torso hp) index = Inr hyper_index \<and>
           length ls = length (tree_leaves (hm_base_shapes_flat hm)) \<and>
           fo = fill_leaves (tree_structure (hm_base_shapes_flat hm)) ls \<and>
           (\<forall>i < length ls.
              hk_Linear (tree_leaves (hm_base_shapes_flat hm) ! i) (hp_linear hp ! i) hyper_index
                = Inr (ls ! i))"
proof -
  from assms obtain hyper_index ls where
    t: "hm_hyper_torso hm (hp_torso hp) index = Inr hyper_index"
    and len: "length (tree_leaves (hm_base_shapes_flat hm)) \<le> length (hp_linear hp)"
    and tr: "traverse (\<lambda>(n, fr). hk_Linear n fr hyper_index)
               (zip (tree_leaves (hm_base_shapes_flat hm)) (hp_linear hp)) = Inr ls"
    and fo: "fo = fill_leaves (tree_structure (hm_base_shapes_flat hm)) ls"
    by (auto simp: flat_output_def split: sum.splits if_splits)
  from tr have la: "list_all2 (\<lambda>x y. (case x of (n, fr) \<Rightarrow> hk_Linear n fr hyper_index) = Inr y)
                      (zip (tree_leaves (hm_base_shapes_flat hm)) (hp_linear hp)) ls"
    by (simp add: traverse_Inr_iff)
  have l: "length ls = length (tree_leaves (hm_base_shapes_flat hm))"
    using list_all2_lengthD [OF la] len by simp
  have "\<forall>i < length ls.
          hk_Linear (tree_leaves (hm_base_shapes_flat hm) ! i) (hp_linear hp ! i) hyper_index
            = Inr (ls ! i)"
  proof (intro allI impI)
    fix i assume i: "i < length ls"
    from list_all2_nthD2 [OF la i] i l len
    show "hk_Linear (tree_leaves (hm_base_shapes_flat hm) ! i) (hp_linear hp ! i) hyper_index
            = Inr (ls ! i)"
      by simp
  qed
  with t l fo show ?thesis by blast
qed

text \<open>
  Claim C7. With \<^verbatim>\<open>hidden_sizes=None\<close> the torso of \<^verbatim>\<open>MLPHypermodel\<close> is the identity, the
  default of \<^verbatim>\<open>hypermodel_module\<close>. With the identity torso the transformed index is the raw
  index, and the flat output for a leaf of the base parameters is \<^verbatim>\<open>hk.Linear\<close> of the raw
  index, with output size the number of elements of that leaf.
\<close>

theorem identity_torso_linear_leaves:
  assumes "hypermodel_module tb dummy (\<lambda>p x. Inr x) False rgp sc = Inr hm"
    and "flat_output hm hp index = Inr fo"
  shows "MLPHypermodel_hyper_torso hk None w_init b_init = (\<lambda>p x. Inr x) \<and>
         hm_hyper_torso hm (hp_torso hp) index = Inr index \<and>
         (\<exists>bp. tb_init tb (PRNGKey 0) dummy = Inr bp \<and>
            tree_structure fo = tree_structure bp \<and>
            length (tree_leaves fo) = length (tree_leaves bp) \<and>
            (\<forall>i < length (tree_leaves bp).
               hk_Linear (prod_list (shape (tree_leaves bp ! i))) (hp_linear hp ! i) index
                 = Inr (tree_leaves fo ! i) \<and>
               shape (tree_leaves fo ! i)
                 = butlast (shape index) @ [prod_list (shape (tree_leaves bp ! i))]))"
proof -
  from hypermodel_module_Inr [OF assms(1)] obtain bp where
    bp: "tb_init tb (PRNGKey 0) dummy = Inr bp"
    and torso: "hm_hyper_torso hm = (\<lambda>p x. Inr x)"
    and nd: "\<not> hm_diagonal_linear_hyper hm"
    and bsf: "hm_base_shapes_flat hm = tree_map (\<lambda>x. prod_list (shape x)) bp"
    by auto
  from flat_output_linear [OF nd assms(2)] obtain hyper_index ls where
    t: "hm_hyper_torso hm (hp_torso hp) index = Inr hyper_index"
    and l: "length ls = length (tree_leaves (hm_base_shapes_flat hm))"
    and fo: "fo = fill_leaves (tree_structure (hm_base_shapes_flat hm)) ls"
    and lin: "\<forall>i < length ls.
                hk_Linear (tree_leaves (hm_base_shapes_flat hm) ! i) (hp_linear hp ! i) hyper_index
                  = Inr (ls ! i)"
    by blast
  from t torso have hi: "hyper_index = index" by simp
  have l2: "length ls = length (tree_leaves (tree_structure (hm_base_shapes_flat hm)))"
    using l by (simp add: length_leaves_structure)
  have leaves: "tree_leaves fo = ls"
    unfolding fo by (rule tree_leaves_fill_leaves [OF l2])
  have st: "tree_structure fo = tree_structure bp"
    unfolding fo using tree_structure_fill_leaves [OF l2]
    by (simp add: bsf tree_structure_tree_map)
  have lbp: "length ls = length (tree_leaves bp)"
    using l by (simp add: bsf tree_leaves_tree_map)
  have each: "\<forall>i < length (tree_leaves bp).
               hk_Linear (prod_list (shape (tree_leaves bp ! i))) (hp_linear hp ! i) index
                 = Inr (tree_leaves fo ! i) \<and>
               shape (tree_leaves fo ! i)
                 = butlast (shape index) @ [prod_list (shape (tree_leaves bp ! i))]"
  proof (intro allI impI)
    fix i assume i: "i < length (tree_leaves bp)"
    with lin lbp have
      "hk_Linear (tree_leaves (hm_base_shapes_flat hm) ! i) (hp_linear hp ! i) hyper_index = Inr (ls ! i)"
      by simp
    with i have a: "hk_Linear (prod_list (shape (tree_leaves bp ! i))) (hp_linear hp ! i) index
                      = Inr (tree_leaves fo ! i)"
      by (simp add: bsf tree_leaves_tree_map hi leaves)
    from a shape_hk_Linear [OF a]
    show "hk_Linear (prod_list (shape (tree_leaves bp ! i))) (hp_linear hp ! i) index
            = Inr (tree_leaves fo ! i) \<and>
          shape (tree_leaves fo ! i)
            = butlast (shape index) @ [prod_list (shape (tree_leaves bp ! i))]"
      by simp
  qed
  have m: "MLPHypermodel_hyper_torso hk None w_init b_init = (\<lambda>p x. Inr x)"
    by (simp add: MLPHypermodel_hyper_torso_def)
  from m t hi bp st leaves lbp each show ?thesis by auto
qed

section \<open>The hypermodel on the example network\<close>

lemma ex_hypermodel_module: "hypermodel_module ex_base ex_input ex_torso False False True = Inr ex_module"
  by (simp add: hypermodel_module_def Let_def tree_map_def ravel_def)

lemma ex_hk_Linear: "hk_Linear 1 ex_frame ex_index = Inr \<lparr>shape = [1], data = [5]\<rparr>"
  by (simp add: hk_Linear_def Let_def get_parameter_def check_shape_def linear_dot_def bcast_last_def upt_rec)

lemma ex_flat: "flat_output ex_module ex_hyper_params ex_index = Inr ex_flat_output"
  unfolding flat_output_def
  by (simp add: tree_leaves_def tree_structure_def tree_map_def ex_hk_Linear del: One_nat_def)

lemma ex_gen: "generated_params ex_module ex_hyper_params ex_index = Inr ex_generated"
  unfolding generated_params_def ex_flat
  by (simp add: tree_multimap_def tree_leaves_def tree_structure_def tree_map_def reshape_def)

lemma ex_scaled: "generated_params_scaled ex_module ex_generated = Inr ex_generated"
  by (simp add: generated_params_scaled_def hk_map_def scale_fn_def)

lemma ex_hyper_fn: "hyper_fn ex_module ex_hyper_params ex_input ex_index = Inr (Array ex_input)"
  unfolding hyper_fn_def ex_gen sum.case ex_scaled
  by simp

theorem generated_params_match_base_params_witness:
  "\<exists>bp gp gps y.
     tb_init ex_base (PRNGKey 0) ex_input = Inr bp \<and>
     generated_params ex_module ex_hyper_params ex_index = Inr gp \<and>
     generated_params_scaled ex_module gp = Inr gps \<and>
     tree_structure gp = tree_structure bp \<and> tree_map shape gp = tree_map shape bp \<and>
     tree_structure gps = tree_structure bp \<and> tree_map shape gps = tree_map shape bp \<and>
     tb_apply ex_base gps ex_input = Inr y"
  by (rule generated_params_match_base_params [OF ex_hypermodel_module ex_hyper_fn])

theorem scale_fn_scales_weights_only_witness:
  "scale_fn ''linear'' ''w'' \<lparr>shape = [4, 1], data = [2, 4, 6, 8]\<rparr>
     = Inr \<lparr>shape = [4, 1], data = [1, 2, 3, 4]\<rparr> \<and>
   scale_fn ''linear'' ''b'' \<lparr>shape = [4], data = [2, 4, 6, 8]\<rparr>
     = Inr \<lparr>shape = [4], data = [2, 4, 6, 8]\<rparr> \<and>
   generated_params_scaled ex_module ex_generated = Inr ex_generated \<and>
   ex_generated = map (\<lambda>(m, ps). (m, map (\<lambda>(k, a). (k, scaled_leaf k a)) ps)) ex_generated"
proof -
  have a: "scale_fn ''linear'' ''w'' \<lparr>shape = [4, 1], data = [2, 4, 6, 8]\<rparr>
             = Inr \<lparr>shape = [4, 1], data = [1, 2, 3, 4]\<rparr>"
    using scale_fn_scales_weights_only [of "''w''" "\<lparr>shape = [4, 1], data = [2, 4, 6, 8]\<rparr>" 4 "[1]" "''linear''" ex_module ex_generated ex_generated]
    by simp
  have b: "scale_fn ''linear'' ''b'' \<lparr>shape = [4], data = [2, 4, 6, 8]\<rparr>
             = Inr \<lparr>shape = [4], data = [2, 4, 6, 8]\<rparr>"
    using scale_fn_scales_weights_only [of "''b''" "\<lparr>shape = [4], data = [2, 4, 6, 8]\<rparr>" 4 "[]" "''linear''" ex_module ex_generated ex_generated]
    by simp
  have c: "ex_generated = map (\<lambda>(m, ps). (m, map (\<lambda>(k, a). (k, scaled_leaf k a)) ps)) ex_generated"
    using scale_fn_scales_weights_only [of "''b''" "\<lparr>shape = [4], data = [2, 4, 6, 8]\<rparr>" 4 "[]" "''linear''" ex_module ex_generated ex_generated] ex_scaled
    by simp
  from a b c ex_scaled show ?thesis by blast
qed

theorem base_shapes_fixed_at_construction_witness:
  "\<exists>hm. hypermodel_module ex_base ex_input ex_torso False False True = Inr hm \<and>
      hm_base_shapes hm = tree_map shape ex_base_params \<and>
      hm_base_shapes_flat hm = tree_map (\<lambda>x. prod_list (shape x)) ex_base_params \<and>
      (\<forall>hp index gp. generated_params hm hp index = Inr gp \<longrightarrow>
           tree_map shape gp = tree_map shape ex_base_params) \<and>
      (\<forall>tb'. tb_init tb' (PRNGKey 0) ex_input = Inr ex_base_params \<and> tb_apply tb' = tb_apply ex_base \<longrightarrow>
           (\<exists>hm'. hypermodel_module tb' ex_input ex_torso False False True = Inr hm' \<and>
                  hyper_fn hm' = hyper_fn hm))"
proof -
  have i: "tb_init ex_base (PRNGKey 0) ex_input = Inr ex_base_params" by simp
  show ?thesis
    by (rule base_shapes_fixed_at_construction [OF i])
qed

theorem identity_torso_linear_leaves_witness:
  "MLPHypermodel_hyper_torso ex_haiku None None None = (\<lambda>p x. Inr x) \<and>
   hm_hyper_torso ex_module (hp_torso ex_hyper_params) ex_index = Inr ex_index \<and>
   (\<exists>bp. tb_init ex_base (PRNGKey 0) ex_input = Inr bp \<and>
      tree_structure ex_flat_output = tree_structure bp \<and>
      length (tree_leaves ex_flat_output) = length (tree_leaves bp) \<and>
      (\<forall>i < length (tree_leaves bp).
         hk_Linear (prod_list (shape (tree_leaves bp ! i))) (hp_linear ex_hyper_params ! i) ex_index
           = Inr (tree_leaves ex_flat_output ! i) \<and>
         shape (tree_leaves ex_flat_output ! i)
           = butlast (shape ex_index) @ [prod_list (shape (tree_leaves bp ! i))]))"
  by (rule identity_torso_linear_leaves [OF ex_hypermodel_module ex_flat])

section \<open>Properties of PriorMLPIndependentLayers\<close>

















section \<open>PriorMLPIndependentLayers on an example\<close>





section \<open>Properties of the networks with a prior\<close>

lemma MLPHypermodel_Inr:
  assumes "MLPHypermodel hk tb dummy indexer hs rgp sc w b = Inr enn"
  shows "\<exists>hm. hypermodel_module tb dummy (MLPHypermodel_hyper_torso hk hs w b) False rgp sc = Inr hm \<and>
           enn = epistemic_network_from_module (\<lambda>p inputs index. hyper_fn hm p inputs index)
                   (hk_init_hyper hk hm) indexer"
  using assms by (auto simp: MLPHypermodel_def split: sum.splits)

lemma enn_indexer_MLPHypermodel:
  "MLPHypermodel hk tb dummy indexer hs rgp sc w b = Inr enn \<Longrightarrow> enn_indexer enn = indexer"
  by (auto simp: epistemic_network_from_module_def dest!: MLPHypermodel_Inr)

lemma tensor_add_scale:
  assumes "tensor_add y (tensor_scale c p) = Inr s"
  shows "shape s = shape y \<and> shape p = shape y \<and>
         data s = map2 (\<lambda>u v. u + c * v) (data y) (data p)"
proof -
  have "map2 (\<lambda>u v. u + v) (data y) (map (\<lambda>a. c * a) (data p))
          = map2 (\<lambda>u v. u + c * v) (data y) (data p)"
    by (auto simp: zip_map2)
  with assms show ?thesis
    by (auto simp: tensor_add_def tensor_scale_def split: if_splits)
qed

lemma add_prior_sum:
  assumes "add_prior net_out (tensor_scale c p) = Inr out"
  shows "shape (output_array out) = shape (output_array net_out) \<and>
         shape p = shape (output_array net_out) \<and>
         data (output_array out) = map2 (\<lambda>u v. u + c * v) (data (output_array net_out)) (data p)"
  using assms
  by (cases net_out) (auto split: sum.splits dest: tensor_add_scale)

lemma EnnWithAdditivePrior_apply:
  "enn_apply (EnnWithAdditivePrior enn prior_fn prior_scale) params x z =
     (case enn_apply enn params x z of
        Inl e \<Rightarrow> Inl e
      | Inr net_out \<Rightarrow>
          (case prior_fn x z of
             Inl e \<Rightarrow> Inl e
           | Inr prior \<Rightarrow> add_prior net_out (tensor_scale prior_scale prior)))"
  by (simp add: EnnWithAdditivePrior_def)

lemma EnnWithAdditivePrior_init:
  "enn_init (EnnWithAdditivePrior enn prior_fn prior_scale) = enn_init enn \<and>
   enn_indexer (EnnWithAdditivePrior enn prior_fn prior_scale) = enn_indexer enn"
  by (simp add: EnnWithAdditivePrior_def)

lemma MLPHypermodelWithHypermodelPrior_Inr:
  assumes "MLPHypermodelWithHypermodelPrior hk base_output_sizes prior_scale dummy_input indexer
             prior_base_output_sizes hyper_hidden_sizes prior_hyper_hidden_sizes w_init b_init
             rgp seed scale = Inr net"
  shows "\<exists>enn_wo_prior prior_enn prior_params.
           MLPHypermodel hk (hk_nets_MLP hk base_output_sizes w_init b_init) dummy_input indexer
             hyper_hidden_sizes rgp scale w_init b_init = Inr enn_wo_prior \<and>
           MLPHypermodel hk (hk_nets_MLP hk prior_base_output_sizes w_init b_init) dummy_input indexer
             prior_hyper_hidden_sizes rgp scale w_init b_init = Inr prior_enn \<and>
           enn_init prior_enn (PRNGKey seed) dummy_input (indexer (PRNGKey seed)) = Inr prior_params \<and>
           net = EnnWithAdditivePrior enn_wo_prior
                   (\<lambda>x z. case enn_apply prior_enn prior_params x z of
                             Inl e \<Rightarrow> Inl e
                           | Inr out \<Rightarrow> Inr (output_array out))
                   prior_scale"
proof -
  from assms obtain prior_enn prior_fn enn_wo_prior where
    pe: "MLPHypermodel hk (hk_nets_MLP hk prior_base_output_sizes w_init b_init) dummy_input indexer
           prior_hyper_hidden_sizes rgp scale w_init b_init = Inr prior_enn"
    and pf: "convert_enn_to_prior_fn prior_enn dummy_input (PRNGKey seed) = Inr prior_fn"
    and ew: "MLPHypermodel hk (hk_nets_MLP hk base_output_sizes w_init b_init) dummy_input indexer
           hyper_hidden_sizes rgp scale w_init b_init = Inr enn_wo_prior"
    and net: "net = EnnWithAdditivePrior enn_wo_prior prior_fn prior_scale"
    by (auto simp: MLPHypermodelWithHypermodelPrior_def Let_def split: sum.splits)
  have ix: "enn_indexer prior_enn = indexer"
    by (rule enn_indexer_MLPHypermodel [OF pe])
  from pf ix obtain prior_params where
    pp: "enn_init prior_enn (PRNGKey seed) dummy_input (indexer (PRNGKey seed)) = Inr prior_params"
    and pfn: "prior_fn = (\<lambda>x z. case enn_apply prior_enn prior_params x z of
                                  Inl e \<Rightarrow> Inl e
                                | Inr out \<Rightarrow> Inr (output_array out))"
    by (auto simp: convert_enn_to_prior_fn_def split: sum.splits)
  from pe ew pp net pfn show ?thesis by blast
qed

lemma MLPHypermodelPriorIndependentLayers_Inr:
  assumes "MLPHypermodelPriorIndependentLayers hk base_output_sizes prior_scale dummy_input indexer
             prior_base_output_sizes hyper_hidden_sizes w_init b_init rgp
             prior_weight_scaling prior_bias_scaling prior_fixed_bias_val seed scale
             problem_temperature = Inr net"
  shows "\<exists>enn_wo_prior index_dim prior_params.
           MLPHypermodel hk (base_net_transformed hk base_output_sizes w_init b_init problem_temperature)
             dummy_input indexer hyper_hidden_sizes rgp scale w_init b_init = Inr enn_wo_prior \<and>
           shape (indexer (SequenceKey seed 0)) = [index_dim] \<and>
           hk_init_prior hk
             (prior_net prior_base_output_sizes (int index_dim) prior_weight_scaling
                prior_bias_scaling prior_fixed_bias_val problem_temperature)
             (SequenceKey seed 0) dummy_input (indexer (SequenceKey seed 0)) = Inr prior_params \<and>
           net = EnnWithAdditivePrior enn_wo_prior
                   (\<lambda>x z. prior_net prior_base_output_sizes (int index_dim) prior_weight_scaling
                            prior_bias_scaling prior_fixed_bias_val problem_temperature
                            prior_params x z)
                   prior_scale"
  using assms
  by (auto simp: MLPHypermodelPriorIndependentLayers_def Let_def
           split: list.splits sum.splits)


text \<open>
  Claim C3. Whenever the apply function of \<^verbatim>\<open>MLPHypermodelWithHypermodelPrior\<close>, or of
  \<^verbatim>\<open>MLPHypermodelPriorIndependentLayers\<close>, returns, the hypermodel without prior and the
  prior network both returned on the same input and index, and the output is their sum with
  the prior weighted by \<^verbatim>\<open>prior_scale\<close>: it has the shape of the hypermodel's output, and
  element by element it is the hypermodel's output plus \<^verbatim>\<open>prior_scale\<close> times the prior's.
\<close>

theorem prior_output_is_added:
  "(MLPHypermodelWithHypermodelPrior hk base_output_sizes prior_scale dummy_input indexer
      prior_base_output_sizes hyper_hidden_sizes prior_hyper_hidden_sizes w_init b_init
      rgp seed scale = Inr net \<and>
    enn_apply net params x z = Inr out \<longrightarrow>
      (\<exists>enn_wo_prior prior_enn prior_params net_out prior_out.
         MLPHypermodel hk (hk_nets_MLP hk base_output_sizes w_init b_init) dummy_input indexer
           hyper_hidden_sizes rgp scale w_init b_init = Inr enn_wo_prior \<and>
         MLPHypermodel hk (hk_nets_MLP hk prior_base_output_sizes w_init b_init) dummy_input indexer
           prior_hyper_hidden_sizes rgp scale w_init b_init = Inr prior_enn \<and>
         enn_init prior_enn (PRNGKey seed) dummy_input (indexer (PRNGKey seed)) = Inr prior_params \<and>
         enn_apply enn_wo_prior params x z = Inr net_out \<and>
         enn_apply prior_enn prior_params x z = Inr prior_out \<and>
         shape (output_array out) = shape (output_array net_out) \<and>
         data (output_array out)
           = map2 (\<lambda>u v. u + prior_scale * v) (data (output_array net_out))
               (data (output_array prior_out)))) \<and>
   (MLPHypermodelPriorIndependentLayers hk base_output_sizes prior_scale dummy_input indexer
      prior_base_output_sizes hyper_hidden_sizes w_init b_init rgp
      prior_weight_scaling prior_bias_scaling prior_fixed_bias_val seed scale
      problem_temperature = Inr net \<and>
    enn_apply net params x z = Inr out \<longrightarrow>
      (\<exists>enn_wo_prior index_dim prior_params net_out prior_out.
         MLPHypermodel hk (base_net_transformed hk base_output_sizes w_init b_init problem_temperature)
           dummy_input indexer hyper_hidden_sizes rgp scale w_init b_init = Inr enn_wo_prior \<and>
         shape (indexer (SequenceKey seed 0)) = [index_dim] \<and>
         hk_init_prior hk
           (prior_net prior_base_output_sizes (int index_dim) prior_weight_scaling
              prior_bias_scaling prior_fixed_bias_val problem_temperature)
           (SequenceKey seed 0) dummy_input (indexer (SequenceKey seed 0)) = Inr prior_params \<and>
         enn_apply enn_wo_prior params x z = Inr net_out \<and>
         prior_net prior_base_output_sizes (int index_dim) prior_weight_scaling
           prior_bias_scaling prior_fixed_bias_val problem_temperature prior_params x z
           = Inr prior_out \<and>
         shape (output_array out) = shape (output_array net_out) \<and>
         data (output_array out)
           = map2 (\<lambda>u v. u + prior_scale * v) (data (output_array net_out)) (data prior_out)))"
proof (intro conjI impI)
  assume a: "MLPHypermodelWithHypermodelPrior hk base_output_sizes prior_scale dummy_input indexer
      prior_base_output_sizes hyper_hidden_sizes prior_hyper_hidden_sizes w_init b_init
      rgp seed scale = Inr net \<and> enn_apply net params x z = Inr out"
  from MLPHypermodelWithHypermodelPrior_Inr [OF conjunct1 [OF a]]
  obtain enn_wo_prior prior_enn prior_params where
    ew: "MLPHypermodel hk (hk_nets_MLP hk base_output_sizes w_init b_init) dummy_input indexer
           hyper_hidden_sizes rgp scale w_init b_init = Inr enn_wo_prior"
    and pe: "MLPHypermodel hk (hk_nets_MLP hk prior_base_output_sizes w_init b_init) dummy_input indexer
           prior_hyper_hidden_sizes rgp scale w_init b_init = Inr prior_enn"
    and pp: "enn_init prior_enn (PRNGKey seed) dummy_input (indexer (PRNGKey seed)) = Inr prior_params"
    and net: "net = EnnWithAdditivePrior enn_wo_prior
                   (\<lambda>x z. case enn_apply prior_enn prior_params x z of
                             Inl e \<Rightarrow> Inl e
                           | Inr out \<Rightarrow> Inr (output_array out))
                   prior_scale"
    by blast
  from conjunct2 [OF a] obtain net_out prior_out where
    no: "enn_apply enn_wo_prior params x z = Inr net_out"
    and po: "enn_apply prior_enn prior_params x z = Inr prior_out"
    and ap: "add_prior net_out (tensor_scale prior_scale (output_array prior_out)) = Inr out"
    unfolding net EnnWithAdditivePrior_apply by (auto split: sum.splits)
  from add_prior_sum [OF ap] ew pe pp no po
  show "\<exists>enn_wo_prior prior_enn prior_params net_out prior_out.
         MLPHypermodel hk (hk_nets_MLP hk base_output_sizes w_init b_init) dummy_input indexer
           hyper_hidden_sizes rgp scale w_init b_init = Inr enn_wo_prior \<and>
         MLPHypermodel hk (hk_nets_MLP hk prior_base_output_sizes w_init b_init) dummy_input indexer
           prior_hyper_hidden_sizes rgp scale w_init b_init = Inr prior_enn \<and>
         enn_init prior_enn (PRNGKey seed) dummy_input (indexer (PRNGKey seed)) = Inr prior_params \<and>
         enn_apply enn_wo_prior params x z = Inr net_out \<and>
         enn_apply prior_enn prior_params x z = Inr prior_out \<and>
         shape (output_array out) = shape (output_array net_out) \<and>
         data (output_array out)
           = map2 (\<lambda>u v. u + prior_scale * v) (data (output_array net_out))
               (data (output_array prior_out))"
    by blast
next
  assume a: "MLPHypermodelPriorIndependentLayers hk base_output_sizes prior_scale dummy_input indexer
      prior_base_output_sizes hyper_hidden_sizes w_init b_init rgp
      prior_weight_scaling prior_bias_scaling prior_fixed_bias_val seed scale
      problem_temperature = Inr net \<and> enn_apply net params x z = Inr out"
  from MLPHypermodelPriorIndependentLayers_Inr [OF conjunct1 [OF a]]
  obtain enn_wo_prior index_dim prior_params where
    ew: "MLPHypermodel hk (base_net_transformed hk base_output_sizes w_init b_init problem_temperature)
           dummy_input indexer hyper_hidden_sizes rgp scale w_init b_init = Inr enn_wo_prior"
    and ix: "shape (indexer (SequenceKey seed 0)) = [index_dim]"
    and pp: "hk_init_prior hk
           (prior_net prior_base_output_sizes (int index_dim) prior_weight_scaling
              prior_bias_scaling prior_fixed_bias_val problem_temperature)
           (SequenceKey seed 0) dummy_input (indexer (SequenceKey seed 0)) = Inr prior_params"
    and net: "net = EnnWithAdditivePrior enn_wo_prior
                   (\<lambda>x z. prior_net prior_base_output_sizes (int index_dim) prior_weight_scaling
                            prior_bias_scaling prior_fixed_bias_val problem_temperature
                            prior_params x z)
                   prior_scale"
    by blast
  from conjunct2 [OF a] obtain net_out prior_out where
    no: "enn_apply enn_wo_prior params x z = Inr net_out"
    and po: "prior_net prior_base_output_sizes (int index_dim) prior_weight_scaling
           prior_bias_scaling prior_fixed_bias_val problem_temperature prior_params x z
           = Inr prior_out"
    and ap: "add_prior net_out (tensor_scale prior_scale prior_out) = Inr out"
    unfolding net EnnWithAdditivePrior_apply by (auto split: sum.splits)
  from add_prior_sum [OF ap] ew ix pp no po
  show "\<exists>enn_wo_prior index_dim prior_params net_out prior_out.
         MLPHypermodel hk (base_net_transformed hk base_output_sizes w_init b_init problem_temperature)
           dummy_input indexer hyper_hidden_sizes rgp scale w_init b_init = Inr enn_wo_prior \<and>
         shape (indexer (SequenceKey seed 0)) = [index_dim] \<and>
         hk_init_prior hk
           (prior_net prior_base_output_sizes (int index_dim) prior_weight_scaling
              prior_bias_scaling prior_fixed_bias_val problem_temperature)
           (SequenceKey seed 0) dummy_input (indexer (SequenceKey seed 0)) = Inr prior_params \<and>
         enn_apply enn_wo_prior params x z = Inr net_out \<and>
         prior_net prior_base_output_sizes (int index_dim) prior_weight_scaling
           prior_bias_scaling prior_fixed_bias_val problem_temperature prior_params x z
           = Inr prior_out \<and>
         shape (output_array out) = shape (output_array net_out) \<and>
         data (output_array out)
           = map2 (\<lambda>u v. u + prior_scale * v) (data (output_array net_out)) (data prior_out)"
    by blast
qed

text \<open>
  Claim C5. A composed network that was built holds one set of prior parameters, the result
  of the prior network's \<^verbatim>\<open>init\<close> on the key of the seed, the dummy input and the index
  drawn with that key. Its apply function is, for all parameters, inputs and indices, the
  hypermodel's apply on the given parameters combined with the prior network's apply on
  these same prior parameters; its init function is the one of the hypermodel without prior.
\<close>

theorem prior_params_frozen:
  "(MLPHypermodelWithHypermodelPrior hk base_output_sizes prior_scale dummy_input indexer
      prior_base_output_sizes hyper_hidden_sizes prior_hyper_hidden_sizes w_init b_init
      rgp seed scale = Inr net \<longrightarrow>
      (\<exists>enn_wo_prior prior_enn prior_params.
         MLPHypermodel hk (hk_nets_MLP hk base_output_sizes w_init b_init) dummy_input indexer
           hyper_hidden_sizes rgp scale w_init b_init = Inr enn_wo_prior \<and>
         MLPHypermodel hk (hk_nets_MLP hk prior_base_output_sizes w_init b_init) dummy_input indexer
           prior_hyper_hidden_sizes rgp scale w_init b_init = Inr prior_enn \<and>
         enn_init prior_enn (PRNGKey seed) dummy_input (indexer (PRNGKey seed)) = Inr prior_params \<and>
         enn_init net = enn_init enn_wo_prior \<and>
         (\<forall>params x z.
            enn_apply net params x z =
              (case enn_apply enn_wo_prior params x z of
                 Inl e \<Rightarrow> Inl e
               | Inr net_out \<Rightarrow>
                   (case enn_apply prior_enn prior_params x z of
                      Inl e \<Rightarrow> Inl e
                    | Inr prior_out \<Rightarrow>
                        add_prior net_out (tensor_scale prior_scale (output_array prior_out))))))) \<and>
   (MLPHypermodelPriorIndependentLayers hk base_output_sizes prior_scale dummy_input indexer
      prior_base_output_sizes hyper_hidden_sizes w_init b_init rgp
      prior_weight_scaling prior_bias_scaling prior_fixed_bias_val seed scale
      problem_temperature = Inr net \<longrightarrow>
      (\<exists>enn_wo_prior index_dim prior_params.
         MLPHypermodel hk (base_net_transformed hk base_output_sizes w_init b_init problem_temperature)
           dummy_input indexer hyper_hidden_sizes rgp scale w_init b_init = Inr enn_wo_prior \<and>
         shape (indexer (SequenceKey seed 0)) = [index_dim] \<and>
         hk_init_prior hk
           (prior_net prior_base_output_sizes (int index_dim) prior_weight_scaling
              prior_bias_scaling prior_fixed_bias_val problem_temperature)
           (SequenceKey seed 0) dummy_input (indexer (SequenceKey seed 0)) = Inr prior_params \<and>
         enn_init net = enn_init enn_wo_prior \<and>
         (\<forall>params x z.
            enn_apply net params x z =
              (case enn_apply enn_wo_prior params x z of
                 Inl e \<Rightarrow> Inl e
               | Inr net_out \<Rightarrow>
                   (case prior_net prior_base_output_sizes (int index_dim) prior_weight_scaling
                           prior_bias_scaling prior_fixed_bias_val problem_temperature
                           prior_params x z of
                      Inl e \<Rightarrow> Inl e
                    | Inr prior_out \<Rightarrow> add_prior net_out (tensor_scale prior_scale prior_out))))))"
proof (intro conjI impI)
  assume a: "MLPHypermodelWithHypermodelPrior hk base_output_sizes prior_scale dummy_input indexer
      prior_base_output_sizes hyper_hidden_sizes prior_hyper_hidden_sizes w_init b_init
      rgp seed scale = Inr net"
  from MLPHypermodelWithHypermodelPrior_Inr [OF a]
  obtain enn_wo_prior prior_enn prior_params where
    ew: "MLPHypermodel hk (hk_nets_MLP hk base_output_sizes w_init b_init) dummy_input indexer
           hyper_hidden_sizes rgp scale w_init b_init = Inr enn_wo_prior"
    and pe: "MLPHypermodel hk (hk_nets_MLP hk prior_base_output_sizes w_init b_init) dummy_input indexer
           prior_hyper_hidden_sizes rgp scale w_init b_init = Inr prior_enn"
    and pp: "enn_init prior_enn (PRNGKey seed) dummy_input (indexer (PRNGKey seed)) = Inr prior_params"
    and net: "net = EnnWithAdditivePrior enn_wo_prior
                   (\<lambda>x z. case enn_apply prior_enn prior_params x z of
                             Inl e \<Rightarrow> Inl e
                           | Inr out \<Rightarrow> Inr (output_array out))
                   prior_scale"
    by blast
  have i: "enn_init net = enn_init enn_wo_prior"
    by (simp add: net EnnWithAdditivePrior_init)
  have ap: "\<forall>params x z.
            enn_apply net params x z =
              (case enn_apply enn_wo_prior params x z of
                 Inl e \<Rightarrow> Inl e
               | Inr net_out \<Rightarrow>
                   (case enn_apply prior_enn prior_params x z of
                      Inl e \<Rightarrow> Inl e
                    | Inr prior_out \<Rightarrow>
                        add_prior net_out (tensor_scale prior_scale (output_array prior_out))))"
    unfolding net EnnWithAdditivePrior_apply by (auto split: sum.splits)
  from ew pe pp i ap
  show "\<exists>enn_wo_prior prior_enn prior_params.
         MLPHypermodel hk (hk_nets_MLP hk base_output_sizes w_init b_init) dummy_input indexer
           hyper_hidden_sizes rgp scale w_init b_init = Inr enn_wo_prior \<and>
         MLPHypermodel hk (hk_nets_MLP hk prior_base_output_sizes w_init b_init) dummy_input indexer
           prior_hyper_hidden_sizes rgp scale w_init b_init = Inr prior_enn \<and>
         enn_init prior_enn (PRNGKey seed) dummy_input (indexer (PRNGKey seed)) = Inr prior_params \<and>
         enn_init net = enn_init enn_wo_prior \<and>
         (\<forall>params x z.
            enn_apply net params x z =
              (case enn_apply enn_wo_prior params x z of
                 Inl e \<Rightarrow> Inl e
               | Inr net_out \<Rightarrow>
                   (case enn_apply prior_enn prior_params x z of
                      Inl e \<Rightarrow> Inl e
                    | Inr prior_out \<Rightarrow>
                        add_prior net_out (tensor_scale prior_scale (output_array prior_out)))))"
    by blast
next
  assume a: "MLPHypermodelPriorIndependentLayers hk base_output_sizes prior_scale dummy_input indexer
      prior_base_output_sizes hyper_hidden_sizes w_init b_init rgp
      prior_weight_scaling prior_bias_scaling prior_fixed_bias_val seed scale
      problem_temperature = Inr net"
  from MLPHypermodelPriorIndependentLayers_Inr [OF a]
  obtain enn_wo_prior index_dim prior_params where
    ew: "MLPHypermodel hk (base_net_transformed hk base_output_sizes w_init b_init problem_temperature)
           dummy_input indexer hyper_hidden_sizes rgp scale w_init b_init = Inr enn_wo_prior"
    and ix: "shape (indexer (SequenceKey seed 0)) = [index_dim]"
    and pp: "hk_init_prior hk
           (prior_net prior_base_output_sizes (int index_dim) prior_weight_scaling
              prior_bias_scaling prior_fixed_bias_val problem_temperature)
           (SequenceKey seed 0) dummy_input (indexer (SequenceKey seed 0)) = Inr prior_params"
    and net: "net = EnnWithAdditivePrior enn_wo_prior
                   (\<lambda>x z. prior_net prior_base_output_sizes (int index_dim) prior_weight_scaling
                            prior_bias_scaling prior_fixed_bias_val problem_temperature
                            prior_params x z)
                   prior_scale"
    by blast
  have i: "enn_init net = enn_init enn_wo_prior"
    by (simp add: net EnnWithAdditivePrior_init)
  have ap: "\<forall>params x z.
            enn_apply net params x z =
              (case enn_apply enn_wo_prior params x z of
                 Inl e \<Rightarrow> Inl e
               | Inr net_out \<Rightarrow>
                   (case prior_net prior_base_output_sizes (int index_dim) prior_weight_scaling
                           prior_bias_scaling prior_fixed_bias_val problem_temperature
                           prior_params x z of
                      Inl e \<Rightarrow> Inl e
                    | Inr prior_out \<Rightarrow> add_prior net_out (tensor_scale prior_scale prior_out)))"
    unfolding net EnnWithAdditivePrior_apply by simp
  from ew ix pp i ap
  show "\<exists>enn_wo_prior index_dim prior_params.
         MLPHypermodel hk (base_net_transformed hk base_output_sizes w_init b_init problem_temperature)
           dummy_input indexer hyper_hidden_sizes rgp scale w_init b_init = Inr enn_wo_prior \<and>
         shape (indexer (SequenceKey seed 0)) = [index_dim] \<and>
         hk_init_prior hk
           (prior_net prior_base_output_sizes (int index_dim) prior_weight_scaling
              prior_bias_scaling prior_fixed_bias_val problem_temperature)
           (SequenceKey seed 0) dummy_input (indexer (SequenceKey seed 0)) = Inr prior_params \<and>
         enn_init net = enn_init enn_wo_prior \<and>
         (\<forall>params x z.
            enn_apply net params x z =
              (case enn_apply enn_wo_prior params x z of
                 Inl e \<Rightarrow> Inl e
               | Inr net_out \<Rightarrow>
                   (case prior_net prior_base_output_sizes (int index_dim) prior_weight_scaling
                           prior_bias_scaling prior_fixed_bias_val problem_temperature
                           prior_params x z of
                      Inl e \<Rightarrow> Inl e
                    | Inr prior_out \<Rightarrow> add_prior net_out (tensor_scale prior_scale prior_out))))"
    by blast
qed

section \<open>The networks with a prior on the example\<close>

lemma ex_MLPHypermodel:
  "MLPHypermodel ex_haiku ex_base ex_input ex_indexer None False True None None = Inr ex_network"
  unfolding MLPHypermodel_def MLPHypermodel_hyper_torso_def option.case ex_hypermodel_module sum.case
  by (rule refl)

lemma ex_network_apply:
  "enn_apply ex_network ex_hyper_params ex_input ex_index = Inr (Array ex_input)"
  unfolding epistemic_network_from_module_def
  by (simp add: ex_hyper_fn del: One_nat_def)

lemma ex_with_prior:
  "MLPHypermodelWithHypermodelPrior ex_haiku [1] 2 ex_input ex_indexer [1] None None None None
     False 0 True
   = Inr (EnnWithAdditivePrior ex_network
            (\<lambda>x z. case enn_apply ex_network ex_hyper_params x z of
                      Inl e \<Rightarrow> Inl e
                    | Inr out \<Rightarrow> Inr (output_array out))
            2)"
proof -
  have m: "hk_nets_MLP ex_haiku [1] None None = ex_base" by simp
  have c: "convert_enn_to_prior_fn ex_network ex_input (PRNGKey 0)
             = Inr (\<lambda>x z. case enn_apply ex_network ex_hyper_params x z of
                             Inl e \<Rightarrow> Inl e
                           | Inr out \<Rightarrow> Inr (output_array out))"
    by (simp add: convert_enn_to_prior_fn_def epistemic_network_from_module_def)
  show ?thesis
    unfolding MLPHypermodelWithHypermodelPrior_def Let_def m ex_MLPHypermodel sum.case c
    by (rule refl)
qed

lemma ex_with_prior_apply:
  "enn_apply (EnnWithAdditivePrior ex_network
            (\<lambda>x z. case enn_apply ex_network ex_hyper_params x z of
                      Inl e \<Rightarrow> Inl e
                    | Inr out \<Rightarrow> Inr (output_array out))
            2) ex_hyper_params ex_input ex_index
   = Inr (Array \<lparr>shape = [1, 1], data = [0]\<rparr>)"
  unfolding EnnWithAdditivePrior_apply ex_network_apply sum.case output_array.simps
  by (simp add: tensor_add_def tensor_scale_def)


lemma ex_layers_indices_1: "layers_indices 1 (length [1 :: nat]) = Inr [[0]]"
  by code_simp

lemma ex_split_index: "array_split_tensor ex_index 1 = Inr [ex_index]"
  by (simp add: array_split_tensor_def array_split_sizes_def)

lemma ex_HyperLinear_call:
  "HyperLinear_call ex_prior_layer (hd ex_prior_frames) ex_input ex_index
     = Inr \<lparr>shape = [1, 1], data = [1]\<rparr>"
  by (simp add: HyperLinear_call_def get_parameter_def check_shape_def hl_weights_def hl_bias_def
      Let_def upt_rec)

lemma ex_prior_net:
  "prior_net [1] (int 1) 1 1 0 None ex_prior_frames ex_input ex_index
     = Inr \<lparr>shape = [1, 1], data = [1]\<rparr>"
proof -
  have i: "PriorMLPIndependentLayers_init [1] 1 1 1 0
             = Inr \<lparr>pm_output_sizes = [1], pm_num_layers = 1, pm_index_dim = 1,
                    pm_weight_scaling = 1, pm_bias_scaling = 1, pm_fixed_bias_val = 0,
                    pm_layers_indices = [[0]], pm_layers = [ex_prior_layer]\<rparr>"
    unfolding PriorMLPIndependentLayers_init_def ex_layers_indices_1 by simp
  have l: "index_layers \<lparr>pm_output_sizes = [1], pm_num_layers = 1, pm_index_dim = 1,
                    pm_weight_scaling = 1, pm_bias_scaling = 1, pm_fixed_bias_val = 0,
                    pm_layers_indices = [[0]], pm_layers = [ex_prior_layer]\<rparr> ex_index
             = Inr [ex_index]"
    using ex_split_index by (simp add: index_layers_def)
  have h: "HyperLinear_call ex_prior_layer (ex_prior_frames ! 0) ex_input ([ex_index] ! 0)
             = Inr \<lparr>shape = [1, 1], data = [1]\<rparr>"
    using ex_HyperLinear_call by simp
  have r: "run_layers 0 1 [ex_prior_layer] ex_prior_frames [ex_index] ex_input
             = Inr \<lparr>shape = [1, 1], data = [1]\<rparr>"
    unfolding run_layers.simps h by simp
  show ?thesis
    unfolding prior_net_def
    using i l r by (simp add: PriorMLPIndependentLayers_call_def temperature_div_def)
qed

lemma ex_MLPHypermodel_temperature:
  "\<exists>enn. MLPHypermodel ex_haiku (base_net_transformed ex_haiku [1] None None None) ex_input
           ex_indexer None False True None None = Inr enn \<and>
         enn_apply enn = enn_apply ex_network"
proof -
  let ?tb = "base_net_transformed ex_haiku [1] None None None"
  let ?hm = "\<lparr>hm_transformed_base = ?tb, hm_hyper_torso = ex_torso,
              hm_diagonal_linear_hyper = False, hm_return_generated_params = False, hm_scale = True,
              hm_base_shapes = tree_map shape ex_base_params,
              hm_base_shapes_flat = tree_map (\<lambda>x. prod_list (shape x)) ex_base_params\<rparr>"
  have i: "tb_init ?tb (PRNGKey 0) ex_input = Inr ex_base_params"
    by (simp add: base_net_transformed_def)
  have hm: "hypermodel_module ?tb ex_input ex_torso False False True = Inr ?hm"
    by (rule hypermodel_module_ok [OF i])
  have hf: "hyper_fn ?hm = hyper_fn ex_module"
    by (rule hyper_fn_cong) (simp_all add: tree_map_def base_net_transformed_def temperature_div_def)
  have "MLPHypermodel ex_haiku ?tb ex_input ex_indexer None False True None None
          = Inr (epistemic_network_from_module (\<lambda>p inputs index. hyper_fn ?hm p inputs index)
                   (hk_init_hyper ex_haiku ?hm) ex_indexer)"
    unfolding MLPHypermodel_def MLPHypermodel_hyper_torso_def option.case hm sum.case
    by (rule refl)
  moreover have "enn_apply (epistemic_network_from_module (\<lambda>p inputs index. hyper_fn ?hm p inputs index)
                   (hk_init_hyper ex_haiku ?hm) ex_indexer) = enn_apply ex_network"
    unfolding epistemic_network_from_module_def hf by simp
  ultimately show ?thesis by blast
qed

lemma ex_independent_layers:
  "\<exists>net. MLPHypermodelPriorIndependentLayers ex_haiku [1] 2 ex_input ex_indexer [1] None None None
            False 1 1 0 0 True None = Inr net \<and>
         enn_apply net ex_hyper_params ex_input ex_index = Inr (Array \<lparr>shape = [1, 1], data = [2]\<rparr>)"
proof -
  from ex_MLPHypermodel_temperature obtain enn where
    e: "MLPHypermodel ex_haiku (base_net_transformed ex_haiku [1] None None None) ex_input
           ex_indexer None False True None None = Inr enn"
    and ea: "enn_apply enn = enn_apply ex_network"
    by blast
  let ?net = "EnnWithAdditivePrior enn
                (\<lambda>x z. prior_net [1] (int 1) 1 1 0 None ex_prior_frames x z) 2"
  have c: "MLPHypermodelPriorIndependentLayers ex_haiku [1] 2 ex_input ex_indexer [1] None None None
            False 1 1 0 0 True None = Inr ?net"
    unfolding MLPHypermodelPriorIndependentLayers_def Let_def e
    by simp
  have a: "enn_apply ?net ex_hyper_params ex_input ex_index = Inr (Array \<lparr>shape = [1, 1], data = [2]\<rparr>)"
    unfolding EnnWithAdditivePrior_apply ea ex_network_apply sum.case ex_prior_net
    by (simp add: tensor_add_def tensor_scale_def)
  from c a show ?thesis by blast
qed


theorem prior_output_is_added_witness:
  "(\<exists>enn_wo_prior prior_enn prior_params net_out prior_out.
         MLPHypermodel ex_haiku (hk_nets_MLP ex_haiku [1] None None) ex_input ex_indexer
           None False True None None = Inr enn_wo_prior \<and>
         MLPHypermodel ex_haiku (hk_nets_MLP ex_haiku [1] None None) ex_input ex_indexer
           None False True None None = Inr prior_enn \<and>
         enn_init prior_enn (PRNGKey 0) ex_input (ex_indexer (PRNGKey 0)) = Inr prior_params \<and>
         enn_apply enn_wo_prior ex_hyper_params ex_input ex_index = Inr net_out \<and>
         enn_apply prior_enn prior_params ex_input ex_index = Inr prior_out \<and>
         shape (output_array (Array \<lparr>shape = [1, 1], data = [0]\<rparr>)) = shape (output_array net_out) \<and>
         data (output_array (Array \<lparr>shape = [1, 1], data = [0]\<rparr>))
           = map2 (\<lambda>u v. u + 2 * v) (data (output_array net_out))
               (data (output_array prior_out))) \<and>
   (\<exists>enn_wo_prior index_dim prior_params net_out prior_out.
         MLPHypermodel ex_haiku (base_net_transformed ex_haiku [1] None None None)
           ex_input ex_indexer None False True None None = Inr enn_wo_prior \<and>
         shape (ex_indexer (SequenceKey 0 0)) = [index_dim] \<and>
         hk_init_prior ex_haiku
           (prior_net [1] (int index_dim) 1
              1 0 None)
           (SequenceKey 0 0) ex_input (ex_indexer (SequenceKey 0 0)) = Inr prior_params \<and>
         enn_apply enn_wo_prior ex_hyper_params ex_input ex_index = Inr net_out \<and>
         prior_net [1] (int index_dim) 1
           1 0 None prior_params ex_input ex_index
           = Inr prior_out \<and>
         shape (output_array (Array \<lparr>shape = [1, 1], data = [2]\<rparr>)) = shape (output_array net_out) \<and>
         data (output_array (Array \<lparr>shape = [1, 1], data = [2]\<rparr>))
           = map2 (\<lambda>u v. u + 2 * v) (data (output_array net_out)) (data prior_out))"
proof -
  have t1: "(\<exists>enn_wo_prior prior_enn prior_params net_out prior_out.
         MLPHypermodel ex_haiku (hk_nets_MLP ex_haiku [1] None None) ex_input ex_indexer
           None False True None None = Inr enn_wo_prior \<and>
         MLPHypermodel ex_haiku (hk_nets_MLP ex_haiku [1] None None) ex_input ex_indexer
           None False True None None = Inr prior_enn \<and>
         enn_init prior_enn (PRNGKey 0) ex_input (ex_indexer (PRNGKey 0)) = Inr prior_params \<and>
         enn_apply enn_wo_prior ex_hyper_params ex_input ex_index = Inr net_out \<and>
         enn_apply prior_enn prior_params ex_input ex_index = Inr prior_out \<and>
         shape (output_array (Array \<lparr>shape = [1, 1], data = [0]\<rparr>)) = shape (output_array net_out) \<and>
         data (output_array (Array \<lparr>shape = [1, 1], data = [0]\<rparr>))
           = map2 (\<lambda>u v. u + 2 * v) (data (output_array net_out))
               (data (output_array prior_out)))"
    by (rule prior_output_is_added [THEN conjunct1, THEN mp, OF conjI [OF ex_with_prior ex_with_prior_apply]])
  from ex_independent_layers obtain net where
    c2: "MLPHypermodelPriorIndependentLayers ex_haiku [1] 2 ex_input ex_indexer [1] None None None
        False 1 1 0 0 True None = Inr net"
    and a2: "enn_apply net ex_hyper_params ex_input ex_index = Inr (Array \<lparr>shape = [1, 1], data = [2]\<rparr>)"
    by blast
  have t2: "(\<exists>enn_wo_prior index_dim prior_params net_out prior_out.
         MLPHypermodel ex_haiku (base_net_transformed ex_haiku [1] None None None)
           ex_input ex_indexer None False True None None = Inr enn_wo_prior \<and>
         shape (ex_indexer (SequenceKey 0 0)) = [index_dim] \<and>
         hk_init_prior ex_haiku
           (prior_net [1] (int index_dim) 1
              1 0 None)
           (SequenceKey 0 0) ex_input (ex_indexer (SequenceKey 0 0)) = Inr prior_params \<and>
         enn_apply enn_wo_prior ex_hyper_params ex_input ex_index = Inr net_out \<and>
         prior_net [1] (int index_dim) 1
           1 0 None prior_params ex_input ex_index
           = Inr prior_out \<and>
         shape (output_array (Array \<lparr>shape = [1, 1], data = [2]\<rparr>)) = shape (output_array net_out) \<and>
         data (output_array (Array \<lparr>shape = [1, 1], data = [2]\<rparr>))
           = map2 (\<lambda>u v. u + 2 * v) (data (output_array net_out)) (data prior_out))"
    by (rule prior_output_is_added [THEN conjunct2, THEN mp, OF conjI [OF c2 a2]])
  from t1 t2 show ?thesis by (rule conjI)
qed

theorem prior_params_frozen_witness:
  "(\<exists>net. MLPHypermodelWithHypermodelPrior ex_haiku [1] 2 ex_input ex_indexer [1] None None None None
        False 0 True = Inr net \<and>
      (\<exists>enn_wo_prior prior_enn prior_params.
         MLPHypermodel ex_haiku (hk_nets_MLP ex_haiku [1] None None) ex_input ex_indexer
           None False True None None = Inr enn_wo_prior \<and>
         MLPHypermodel ex_haiku (hk_nets_MLP ex_haiku [1] None None) ex_input ex_indexer
           None False True None None = Inr prior_enn \<and>
         enn_init prior_enn (PRNGKey 0) ex_input (ex_indexer (PRNGKey 0)) = Inr prior_params \<and>
         enn_init net = enn_init enn_wo_prior \<and>
         (\<forall>params x z.
            enn_apply net params x z =
              (case enn_apply enn_wo_prior params x z of
                 Inl e \<Rightarrow> Inl e
               | Inr net_out \<Rightarrow>
                   (case enn_apply prior_enn prior_params x z of
                      Inl e \<Rightarrow> Inl e
                    | Inr prior_out \<Rightarrow>
                        add_prior net_out (tensor_scale 2 (output_array prior_out))))))) \<and>
   (\<exists>net. MLPHypermodelPriorIndependentLayers ex_haiku [1] 2 ex_input ex_indexer [1] None None None
        False 1 1 0 0 True None = Inr net \<and>
      (\<exists>enn_wo_prior index_dim prior_params.
         MLPHypermodel ex_haiku (base_net_transformed ex_haiku [1] None None None)
           ex_input ex_indexer None False True None None = Inr enn_wo_prior \<and>
         shape (ex_indexer (SequenceKey 0 0)) = [index_dim] \<and>
         hk_init_prior ex_haiku
           (prior_net [1] (int index_dim) 1
              1 0 None)
           (SequenceKey 0 0) ex_input (ex_indexer (SequenceKey 0 0)) = Inr prior_params \<and>
         enn_init net = enn_init enn_wo_prior \<and>
         (\<forall>params x z.
            enn_apply net params x z =
              (case enn_apply enn_wo_prior params x z of
                 Inl e \<Rightarrow> Inl e
               | Inr net_out \<Rightarrow>
                   (case prior_net [1] (int index_dim) 1
                           1 0 None
                           prior_params x z of
                      Inl e \<Rightarrow> Inl e
                    | Inr prior_out \<Rightarrow> add_prior net_out (tensor_scale 2 prior_out))))))"
proof -
  from ex_with_prior obtain net where
    c1: "MLPHypermodelWithHypermodelPrior ex_haiku [1] 2 ex_input ex_indexer [1] None None None None
        False 0 True = Inr net"
    by blast
  have t1: "(\<exists>enn_wo_prior prior_enn prior_params.
         MLPHypermodel ex_haiku (hk_nets_MLP ex_haiku [1] None None) ex_input ex_indexer
           None False True None None = Inr enn_wo_prior \<and>
         MLPHypermodel ex_haiku (hk_nets_MLP ex_haiku [1] None None) ex_input ex_indexer
           None False True None None = Inr prior_enn \<and>
         enn_init prior_enn (PRNGKey 0) ex_input (ex_indexer (PRNGKey 0)) = Inr prior_params \<and>
         enn_init net = enn_init enn_wo_prior \<and>
         (\<forall>params x z.
            enn_apply net params x z =
              (case enn_apply enn_wo_prior params x z of
                 Inl e \<Rightarrow> Inl e
               | Inr net_out \<Rightarrow>
                   (case enn_apply prior_enn prior_params x z of
                      Inl e \<Rightarrow> Inl e
                    | Inr prior_out \<Rightarrow>
                        add_prior net_out (tensor_scale 2 (output_array prior_out))))))"
    by (rule prior_params_frozen [THEN conjunct1, THEN mp, OF c1])
  have p1: "\<exists>net. MLPHypermodelWithHypermodelPrior ex_haiku [1] 2 ex_input ex_indexer [1] None None None None
        False 0 True = Inr net \<and>
      (\<exists>enn_wo_prior prior_enn prior_params.
         MLPHypermodel ex_haiku (hk_nets_MLP ex_haiku [1] None None) ex_input ex_indexer
           None False True None None = Inr enn_wo_prior \<and>
         MLPHypermodel ex_haiku (hk_nets_MLP ex_haiku [1] None None) ex_input ex_indexer
           None False True None None = Inr prior_enn \<and>
         enn_init prior_enn (PRNGKey 0) ex_input (ex_indexer (PRNGKey 0)) = Inr prior_params \<and>
         enn_init net = enn_init enn_wo_prior \<and>
         (\<forall>params x z.
            enn_apply net params x z =
              (case enn_apply enn_wo_prior params x z of
                 Inl e \<Rightarrow> Inl e
               | Inr net_out \<Rightarrow>
                   (case enn_apply prior_enn prior_params x z of
                      Inl e \<Rightarrow> Inl e
                    | Inr prior_out \<Rightarrow>
                        add_prior net_out (tensor_scale 2 (output_array prior_out))))))"
    by (rule exI [of _ net], rule conjI [OF c1 t1])
  from ex_independent_layers obtain net' where
    c2: "MLPHypermodelPriorIndependentLayers ex_haiku [1] 2 ex_input ex_indexer [1] None None None
        False 1 1 0 0 True None = Inr net'"
    by blast
  have t2: "(\<exists>enn_wo_prior index_dim prior_params.
         MLPHypermodel ex_haiku (base_net_transformed ex_haiku [1] None None None)
           ex_input ex_indexer None False True None None = Inr enn_wo_prior \<and>
         shape (ex_indexer (SequenceKey 0 0)) = [index_dim] \<and>
         hk_init_prior ex_haiku
           (prior_net [1] (int index_dim) 1
              1 0 None)
           (SequenceKey 0 0) ex_input (ex_indexer (SequenceKey 0 0)) = Inr prior_params \<and>
         enn_init net' = enn_init enn_wo_prior \<and>
         (\<forall>params x z.
            enn_apply net' params x z =
              (case enn_apply enn_wo_prior params x z of
                 Inl e \<Rightarrow> Inl e
               | Inr net_out \<Rightarrow>
                   (case prior_net [1] (int index_dim) 1
                           1 0 None
                           prior_params x z of
                      Inl e \<Rightarrow> Inl e
                    | Inr prior_out \<Rightarrow> add_prior net_out (tensor_scale 2 prior_out)))))"
    by (rule prior_params_frozen [THEN conjunct2, THEN mp, OF c2])
  have p2: "\<exists>net. MLPHypermodelPriorIndependentLayers ex_haiku [1] 2 ex_input ex_indexer [1] None None None
        False 1 1 0 0 True None = Inr net \<and>
      (\<exists>enn_wo_prior index_dim prior_params.
         MLPHypermodel ex_haiku (base_net_transformed ex_haiku [1] None None None)
           ex_input ex_indexer None False True None None = Inr enn_wo_prior \<and>
         shape (ex_indexer (SequenceKey 0 0)) = [index_dim] \<and>
         hk_init_prior ex_haiku
           (prior_net [1] (int index_dim) 1
              1 0 None)
           (SequenceKey 0 0) ex_input (ex_indexer (SequenceKey 0 0)) = Inr prior_params \<and>
         enn_init net = enn_init enn_wo_prior \<and>
         (\<forall>params x z.
            enn_apply net params x z =
              (case enn_apply enn_wo_prior params x z of
                 Inl e \<Rightarrow> Inl e
               | Inr net_out \<Rightarrow>
                   (case prior_net [1] (int index_dim) 1
                           1 0 None
                           prior_params x z of
                      Inl e \<Rightarrow> Inl e
                    | Inr prior_out \<Rightarrow> add_prior net_out (tensor_scale 2 prior_out)))))"
    by (rule exI [of _ net'], rule conjI [OF c2 t2])
  from p1 p2 show ?thesis by (rule conjI)
qed

end
